theory Spec2Isabelle
  imports Main "HOL-Library.Log_Nat" "HOL-Library.Char_ord" "HOL-Library.List_Lexorder"
begin

section \<open>Zoned date-times (the part of luxon's DateTime that app.js uses)\<close>

text \<open>
  app.js obtains its clock reading as \<^verbatim>\<open>DateTime.now().setZone("Asia/Kolkata")\<close>.
  A luxon DateTime holds the instant \<^verbatim>\<open>ts\<close> (epoch milliseconds) and the zone's offset
  at that instant (luxon's field \<^verbatim>\<open>o\<close>, in minutes). The model covers valid DateTimes in
  a zone whose offset does not change during the day in question; Asia/Kolkata has had the
  constant offset +05:30 (330 minutes) without daylight saving since 1945.
\<close>

record DateTime =
  ts :: int
  offset :: int

definition setZoneKolkata :: "int \<Rightarrow> DateTime" where
  "setZoneKolkata epochMs = \<lparr>ts = epochMs, offset = 330\<rparr>"

definition localTS :: "DateTime \<Rightarrow> int" where
  \<comment> \<open>the wall clock reading as milliseconds since 1970-01-01T00:00 local time\<close>
  "localTS t = ts t + offset t * 60000"

definition localDay :: "DateTime \<Rightarrow> int" where
  \<comment> \<open>the local calendar day, counted from 1970-01-01\<close>
  "localDay t = localTS t div 86400000"

definition msOfDay :: "DateTime \<Rightarrow> int" where
  \<comment> \<open>milliseconds since local midnight\<close>
  "msOfDay t = localTS t mod 86400000"

definition clock :: "int \<Rightarrow> int \<Rightarrow> int \<Rightarrow> int \<Rightarrow> int" where
  \<comment> \<open>hour:minute:second.millisecond as milliseconds since midnight\<close>
  "clock h m s ms = ((h * 60 + m) * 60 + s) * 1000 + ms"

definition weekday :: "DateTime \<Rightarrow> int" where
  \<comment> \<open>luxon: 1 = Monday .. 7 = Sunday, from getUTCDay of the local date (0 = Sunday);
      1970-01-01 was a Thursday\<close>
  "weekday t = (let js = (localDay t + 4) mod 7 in if js = 0 then 7 else js)"

definition set_time :: "DateTime \<Rightarrow> int \<Rightarrow> int \<Rightarrow> int \<Rightarrow> int \<Rightarrow> DateTime" where
  \<comment> \<open>\<^verbatim>\<open>t.set({hour, minute, second, millisecond})\<close>: same local date, the given wall
      clock time, converted back to an instant with the zone's offset\<close>
  "set_time t h m s ms = t\<lparr>ts := localDay t * 86400000 + clock h m s ms - offset t * 60000\<rparr>"

definition minus_minutes :: "DateTime \<Rightarrow> int \<Rightarrow> DateTime" where
  \<comment> \<open>\<^verbatim>\<open>t.minus({minutes: n})\<close>: luxon adds \<open>- n * 60000\<close> to the instant\<close>
  "minus_minutes t n = t\<lparr>ts := ts t - n * 60000\<rparr>"

section \<open>Time window gate\<close>

text \<open>
  \<^verbatim>\<open>EARLY_CUTOFF_MINUTES = Number(process.env.EARLY_CUTOFF_MINUTES ?? 15)\<close> is a module
  constant; it is a parameter of the model, an integer as the specification requires.
  Comparison of two DateTimes with \<^verbatim>\<open>>=\<close> and \<^verbatim>\<open><=\<close> compares their instants
  (\<^verbatim>\<open>valueOf\<close>). An instant of luxon is valid up to 8.64e15 milliseconds from the epoch;
  \<^verbatim>\<open>minus\<close> beyond that range gives an invalid DateTime, whose \<^verbatim>\<open>valueOf\<close> is NaN, so
  that every comparison with it is false. The model has unbounded instants. For a valid
  clock reading and a cutoff that is not negative the two agree: a cutoff instant that
  luxon makes invalid lies far before the start of the day, where the model's comparison is
  false as well. A negative cutoff is outside the model.
\<close>

definition isWithinTradingAlertWindow :: "int \<Rightarrow> DateTime \<Rightarrow> bool" where
  "isWithinTradingAlertWindow EARLY_CUTOFF_MINUTES nowIST =
     (let day = weekday nowIST in
      if day > 5 then False
      else
        let start = set_time nowIST 9 20 0 0;
            cutoff = minus_minutes (set_time nowIST 15 0 0 0) EARLY_CUTOFF_MINUTES
        in ts nowIST \<ge> ts start \<and> ts nowIST \<le> ts cutoff)"

section \<open>JavaScript numbers\<close>

text \<open>
  A JavaScript Number is an IEEE 754 binary64 value. \<open>Fin q\<close> is the finite value whose
  exact mathematical value is the rational \<open>q\<close>; every arithmetic operation computes the exact
  result and rounds it to the nearest binary64 value, ties to even (\<open>round64\<close>). The two
  zeros are identified: app.js never divides by zero (\<open>pctChange\<close> tests \<^verbatim>\<open>prior === 0\<close>
  first, which holds for both zeros) and reads no sign of a zero.
\<close>

datatype jsnum = NaN | PInf | NInf | Fin rat

definition ipow :: "int \<Rightarrow> int \<Rightarrow> rat" where
  \<comment> \<open>\<open>b\<close> to an integer power, as a rational\<close>
  "ipow b e = (if 0 \<le> e then of_int (b ^ nat e) else Fract 1 (b ^ nat (- e)))"

function digit_count :: "int \<Rightarrow> int \<Rightarrow> int" where
  \<comment> \<open>the number of digits of \<open>a\<close> written to base \<open>b\<close>; 0 for \<open>a \<le> 0\<close>\<close>
  "digit_count b a = (if a \<le> 0 \<or> b < 2 then 0 else 1 + digit_count b (a div b))"
  by pat_completeness auto
termination
  by (relation "measure (\<lambda>(b, a). nat a)") (auto simp: div_less_dividend pos_imp_zdiv_nonneg_iff intro!: int_div_less_self)

declare digit_count.simps [simp del]

definition flog :: "int \<Rightarrow> rat \<Rightarrow> int" where
  \<comment> \<open>the floor of the logarithm to base \<open>b\<close> of a positive rational \<open>a = p / q\<close>: the digit
      counts of \<open>p\<close> and \<open>q\<close> give it up to one, and a comparison decides\<close>
  "flog b a =
     (let (p, q) = quotient_of a;
          d = digit_count b p - digit_count b q
      in if (if 0 \<le> d then q * b ^ nat d \<le> p else q \<le> p * b ^ nat (- d))
         then d else d - 1)"

definition round_half_even :: "rat \<Rightarrow> int" where
  \<comment> \<open>the nearest integer, the even one of two equally near\<close>
  "round_half_even x =
     (let (p, q) = quotient_of x; f = p div q; r = p mod q
      in if 2 * r < q then f else if q < 2 * r then f + 1 else if even f then f else f + 1)"

definition round64 :: "rat \<Rightarrow> jsnum" where
  \<comment> \<open>round to nearest binary64, ties to even: 53 significant bits, exponents from -1022
      (below that subnormal: the spacing stays 2 to the -1074) up to 1023; a result that
      reaches 2 to the 1024 is infinite\<close>
  "round64 x =
     (if x = 0 then Fin 0
      else
        let a = \<bar>x\<bar>;
            e = max (flog 2 a) (- 1022);
            n = round_half_even (a * ipow 2 (52 - e))
        in if 1023 < e \<or> (e = 1023 \<and> 9007199254740992 \<le> n)
           then (if 0 < x then PInf else NInf)
           else Fin ((if 0 < x then of_int n else of_int (- n)) * ipow 2 (e - 52)))"

fun js_sub :: "jsnum \<Rightarrow> jsnum \<Rightarrow> jsnum" where
  "js_sub (Fin a) (Fin b) = round64 (a - b)"
| "js_sub NaN _ = NaN"
| "js_sub _ NaN = NaN"
| "js_sub PInf PInf = NaN"
| "js_sub NInf NInf = NaN"
| "js_sub PInf _ = PInf"
| "js_sub NInf _ = NInf"
| "js_sub (Fin a) PInf = NInf"
| "js_sub (Fin a) NInf = PInf"

fun js_mul :: "jsnum \<Rightarrow> jsnum \<Rightarrow> jsnum" where
  "js_mul NaN _ = NaN"
| "js_mul _ NaN = NaN"
| "js_mul (Fin a) (Fin b) = round64 (a * b)"
| "js_mul (Fin a) y = (if a = 0 then NaN else if (a < 0) = (y = NInf) then PInf else NInf)"
| "js_mul x (Fin b) = (if b = 0 then NaN else if (b < 0) = (x = NInf) then PInf else NInf)"
| "js_mul x y = (if x = y then PInf else NInf)"

fun js_div :: "jsnum \<Rightarrow> jsnum \<Rightarrow> jsnum" where
  \<comment> \<open>a zero divisor is read as +0\<close>
  "js_div NaN _ = NaN"
| "js_div _ NaN = NaN"
| "js_div (Fin a) (Fin b) =
     (if b = 0 then (if a = 0 then NaN else if 0 < a then PInf else NInf)
      else round64 (a / b))"
| "js_div (Fin a) _ = Fin 0"
| "js_div x (Fin b) = (if (b < 0) = (x = NInf) then PInf else NInf)"
| "js_div _ _ = NaN"

fun js_le :: "jsnum \<Rightarrow> jsnum \<Rightarrow> bool" where
  \<comment> \<open>\<^verbatim>\<open>x <= y\<close> on Numbers: false when either is NaN\<close>
  "js_le NaN _ = False"
| "js_le _ NaN = False"
| "js_le NInf _ = True"
| "js_le _ PInf = True"
| "js_le (Fin a) (Fin b) = (a \<le> b)"
| "js_le _ _ = False"

definition isFinite :: "jsnum \<Rightarrow> bool" where
  "isFinite x = (case x of Fin _ \<Rightarrow> True | _ \<Rightarrow> False)"

section \<open>Numbers and strings\<close>

text \<open>
  A JavaScript string is modelled by an Isabelle string; a character outside ASCII stands as
  the bytes of its UTF-8 encoding.
\<close>

definition digit_char :: "int \<Rightarrow> char" where
  "digit_char d = char_of (48 + d)"

function decimal :: "int \<Rightarrow> string" where
  \<comment> \<open>the decimal digits of a natural number\<close>
  "decimal n = (if n < 10 then [digit_char n] else decimal (n div 10) @ [digit_char (n mod 10)])"
  by pat_completeness auto
termination
  by (relation "measure nat") auto

declare decimal.simps [simp del]

definition digits_ok :: "rat \<Rightarrow> int \<Rightarrow> int \<Rightarrow> bool" where
  \<comment> \<open>the decimal \<open>s\<close> times 10 to the \<open>e\<close> denotes the binary64 value \<open>x\<close>\<close>
  "digits_ok x s e = (round64 (of_int s * ipow 10 e) = Fin x)"

fun shortest :: "nat \<Rightarrow> nat \<Rightarrow> rat \<Rightarrow> int \<times> nat \<times> int" where
  \<comment> \<open>Number::toString, step 5: integers \<open>n\<close>, \<open>k\<close>, \<open>s\<close> with \<open>k\<close> digits in \<open>s\<close>, the decimal
      \<open>s\<close> times 10 to the \<open>n - k\<close> denoting \<open>x\<close>, and \<open>k\<close> as small as possible (17 digits
      always suffice); of two such \<open>s\<close> the one nearer to \<open>x\<close>. The first argument bounds
      the search.\<close>
  "shortest fuel k x =
     (let n0 = flog 10 x + 1;
          e = n0 - int k;
          lo = \<lfloor>x * ipow 10 (- e)\<rfloor>;
          hi = lo + 1;
          okl = digits_ok x lo e;
          okh = digits_ok x hi e;
          dl = x - of_int lo * ipow 10 e;
          dh = of_int hi * ipow 10 e - x;
          s = (if okl \<and> okh then (if dl < dh then lo else if dh < dl then hi
                                   else if even lo then lo else hi)
               else if okh then hi else lo)
      in case fuel of
           0 \<Rightarrow> (lo, k, n0)
         | Suc f \<Rightarrow>
             if okl \<or> okh then (if s = 10 ^ k then (10 ^ (k - 1), k, n0 + 1) else (s, k, n0))
             else shortest f (Suc k) x)"

declare shortest.simps [simp del]

definition pos_to_string :: "rat \<Rightarrow> string" where
  \<comment> \<open>Number::toString for a positive finite value, radix 10\<close>
  "pos_to_string x =
     (let (s, k, n) = shortest 17 1 x; ds = decimal s
      in if int k \<le> n \<and> n \<le> 21 then ds @ replicate (nat (n - int k)) CHR ''0''
         else if 0 < n \<and> n \<le> 21 then take (nat n) ds @ ''.'' @ drop (nat n) ds
         else if - 6 < n \<and> n \<le> 0 then ''0.'' @ replicate (nat (- n)) CHR ''0'' @ ds
         else
           let ex = n - 1;
               es = (if ex < 0 then ''-'' else ''+'') @ decimal \<bar>ex\<bar>
           in if k = 1 then ds @ ''e'' @ es
              else take 1 ds @ ''.'' @ drop 1 ds @ ''e'' @ es)"

definition num_to_string :: "jsnum \<Rightarrow> string" where
  "num_to_string x =
     (case x of
        NaN \<Rightarrow> ''NaN''
      | PInf \<Rightarrow> ''Infinity''
      | NInf \<Rightarrow> ''-Infinity''
      | Fin q \<Rightarrow> if q = 0 then ''0'' else if q < 0 then ''-'' @ pos_to_string (- q)
                 else pos_to_string q)"

definition toFixed :: "jsnum \<Rightarrow> nat \<Rightarrow> string" where
  \<comment> \<open>Number.prototype.toFixed(f) for \<open>f\<close> from 0 to 100: the decimal with \<open>f\<close> fraction
      digits nearest to the exact value, the larger of two equally near; values from 10 to
      the 21 on and the non-finite ones print as Number::toString does\<close>
  "toFixed x f =
     (case x of
        Fin q \<Rightarrow>
          let sg = (if q < 0 then ''-'' else []);
              a = \<bar>q\<bar>
          in if 10 ^ 21 \<le> a then sg @ num_to_string (Fin a)
             else
               let n = \<lfloor>a * 10 ^ f + 1 / 2\<rfloor>;
                   m = (if n = 0 then ''0'' else decimal n);
                   m' = (if f \<noteq> 0
                         then (let z = (if length m \<le> f
                                        then replicate (f + 1 - length m) CHR ''0'' @ m else m);
                                   k = length z
                               in take (k - f) z @ ''.'' @ drop (k - f) z)
                         else m)
               in sg @ m'
      | _ \<Rightarrow> num_to_string x)"

definition is_digit :: "char \<Rightarrow> bool" where
  "is_digit c = (48 \<le> (of_char c :: int) \<and> (of_char c :: int) \<le> 57)"

definition digit_of :: "int \<Rightarrow> char \<Rightarrow> int option" where
  \<comment> \<open>the value of \<open>c\<close> as a digit of the radix, letters in either case\<close>
  "digit_of radix c =
     (let v = (of_char c :: int);
          d = (if 48 \<le> v \<and> v \<le> 57 then v - 48
               else if 97 \<le> v \<and> v \<le> 122 then v - 87
               else if 65 \<le> v \<and> v \<le> 90 then v - 55
               else radix)
      in if d < radix then Some d else None)"

fun digits_to_int :: "int \<Rightarrow> int \<Rightarrow> string \<Rightarrow> int option" where
  \<comment> \<open>the number a string of digits denotes, or \<open>None\<close> when a character is no digit\<close>
  "digits_to_int radix acc [] = Some acc"
| "digits_to_int radix acc (c # cs) =
     (case digit_of radix c of
        None \<Rightarrow> None
      | Some d \<Rightarrow> digits_to_int radix (acc * radix + d) cs)"

definition ws1 :: "char \<Rightarrow> bool" where
  \<comment> \<open>TAB, LF, VT, FF, CR, SP\<close>
  "ws1 c = ((of_char c :: int) \<in> {9, 10, 11, 12, 13, 32})"

definition ws2 :: "char \<Rightarrow> char \<Rightarrow> bool" where
  \<comment> \<open>U+00A0\<close>
  "ws2 c d = ((of_char c :: int) = 0xC2 \<and> (of_char d :: int) = 0xA0)"

definition ws3 :: "char \<Rightarrow> char \<Rightarrow> char \<Rightarrow> bool" where
  \<comment> \<open>U+1680, U+2000 to U+200A, U+2028, U+2029, U+202F, U+205F, U+3000, U+FEFF\<close>
  "ws3 c d e =
     (let x = (of_char c :: int); y = (of_char d :: int); z = (of_char e :: int)
      in (x = 0xE1 \<and> y = 0x9A \<and> z = 0x80) \<or>
         (x = 0xE2 \<and> y = 0x80 \<and> ((0x80 \<le> z \<and> z \<le> 0x8A) \<or> z = 0xA8 \<or> z = 0xA9 \<or> z = 0xAF)) \<or>
         (x = 0xE2 \<and> y = 0x81 \<and> z = 0x9F) \<or>
         (x = 0xE3 \<and> y = 0x80 \<and> z = 0x80) \<or>
         (x = 0xEF \<and> y = 0xBB \<and> z = 0xBF))"

fun skip_ws :: "string \<Rightarrow> string" where
  "skip_ws (c # d # e # cs) =
     (if ws1 c then skip_ws (d # e # cs)
      else if ws2 c d then skip_ws (e # cs)
      else if ws3 c d e then skip_ws cs
      else c # d # e # cs)"
| "skip_ws [c, d] = (if ws1 c then skip_ws [d] else if ws2 c d then [] else [c, d])"
| "skip_ws [c] = (if ws1 c then [] else [c])"
| "skip_ws [] = []"

fun skip_ws_rev :: "string \<Rightarrow> string" where
  \<comment> \<open>the same on the reversed string\<close>
  "skip_ws_rev (c # d # e # cs) =
     (if ws1 c then skip_ws_rev (d # e # cs)
      else if ws2 d c then skip_ws_rev (e # cs)
      else if ws3 e d c then skip_ws_rev cs
      else c # d # e # cs)"
| "skip_ws_rev [c, d] = (if ws1 c then skip_ws_rev [d] else if ws2 d c then [] else [c, d])"
| "skip_ws_rev [c] = (if ws1 c then [] else [c])"
| "skip_ws_rev [] = []"

definition trim_ws :: "string \<Rightarrow> string" where
  "trim_ws s = rev (skip_ws_rev (rev (skip_ws s)))"

datatype numlit = LitNaN | LitInf bool | LitDec bool int int

definition parse_exponent :: "string \<Rightarrow> int option" where
  \<comment> \<open>ExponentPart, or nothing\<close>
  "parse_exponent r =
     (case r of
        [] \<Rightarrow> Some 0
      | c # t \<Rightarrow>
          if c = CHR ''e'' \<or> c = CHR ''E'' then
            (let (neg, ds) = (case t of
                               x # u \<Rightarrow> if x = CHR ''-'' then (True, u)
                                         else if x = CHR ''+'' then (False, u) else (False, t)
                             | [] \<Rightarrow> (False, t))
             in if ds = [] then None
                else (case digits_to_int 10 0 ds of
                        None \<Rightarrow> None
                      | Some v \<Rightarrow> Some (if neg then - v else v)))
          else None)"

definition parse_unsigned_decimal :: "bool \<Rightarrow> string \<Rightarrow> numlit" where
  \<comment> \<open>StrUnsignedDecimalLiteral\<close>
  "parse_unsigned_decimal neg u =
     (if u = ''Infinity'' then LitInf neg
      else
        let ip = takeWhile is_digit u;
            r1 = dropWhile is_digit u;
            (fp, r2) = (case r1 of
                          c # t \<Rightarrow> if c = CHR ''.'' then (takeWhile is_digit t, dropWhile is_digit t)
                                    else ([], r1)
                        | [] \<Rightarrow> ([], r1))
        in if ip = [] \<and> fp = [] then LitNaN
           else (case (digits_to_int 10 0 (ip @ fp), parse_exponent r2) of
                   (Some m, Some ex) \<Rightarrow> LitDec neg m (ex - int (length fp))
                 | _ \<Rightarrow> LitNaN))"

definition parse_radix :: "int \<Rightarrow> string \<Rightarrow> numlit" where
  \<comment> \<open>the digits of a NonDecimalIntegerLiteral, after its prefix\<close>
  "parse_radix radix ds =
     (if ds = [] then LitNaN
      else (case digits_to_int radix 0 ds of None \<Rightarrow> LitNaN | Some v \<Rightarrow> LitDec False v 0))"

definition parse_StringNumericLiteral :: "string \<Rightarrow> numlit" where
  "parse_StringNumericLiteral str =
     (let s = trim_ws str
      in case s of
           [] \<Rightarrow> LitDec False 0 0
         | c # t \<Rightarrow>
             (case (c = CHR ''0'', t) of
                (True, x # ds) \<Rightarrow>
                  if x = CHR ''x'' \<or> x = CHR ''X'' then parse_radix 16 ds
                  else if x = CHR ''o'' \<or> x = CHR ''O'' then parse_radix 8 ds
                  else if x = CHR ''b'' \<or> x = CHR ''B'' then parse_radix 2 ds
                  else parse_unsigned_decimal False s
              | _ \<Rightarrow>
                  if c = CHR ''-'' then parse_unsigned_decimal True t
                  else if c = CHR ''+'' then parse_unsigned_decimal False t
                  else parse_unsigned_decimal False s))"

definition numlit_value :: "numlit \<Rightarrow> jsnum" where
  "numlit_value l =
     (case l of
        LitNaN \<Rightarrow> NaN
      | LitInf neg \<Rightarrow> (if neg then NInf else PInf)
      | LitDec neg m e \<Rightarrow> round64 ((if neg then - of_int m else of_int m) * ipow 10 e))"

definition StringToNumber :: "string \<Rightarrow> jsnum" where
  \<comment> \<open>\<^verbatim>\<open>Number(s)\<close> for a string \<open>s\<close>\<close>
  "StringToNumber s = numlit_value (parse_StringNumericLiteral s)"

section \<open>JavaScript values\<close>

text \<open>
  The values app.js handles: what \<^verbatim>\<open>JSON.parse\<close> yields for a response body, and the
  object literals app.js builds itself. An object is the list of its own properties; a key
  bound twice reads as its first binding.
\<close>

datatype jsval =
    VUndefined
  | VNull
  | VBool bool
  | VNum jsnum
  | VStr string
  | VArr "jsval list"
  | VObj "(string \<times> jsval) list"

datatype error = TypeError | AxiosError string

definition message_of :: "error \<Rightarrow> string" where
  \<comment> \<open>\<^verbatim>\<open>e.message\<close>; the text of a TypeError is the engine's own, and no TypeError reaches
      a place of app.js that reads it\<close>
  "message_of e = (case e of AxiosError m \<Rightarrow> m | TypeError \<Rightarrow> ''TypeError'')"

definition bindE :: "error + 'a \<Rightarrow> ('a \<Rightarrow> error + 'b) \<Rightarrow> error + 'b" where
  \<comment> \<open>sequencing of two steps, the first of which may throw\<close>
  "bindE m f = (case m of Inl e \<Rightarrow> Inl e | Inr x \<Rightarrow> f x)"

definition truthy :: "jsval \<Rightarrow> bool" where
  "truthy v =
     (case v of
        VUndefined \<Rightarrow> False
      | VNull \<Rightarrow> False
      | VBool b \<Rightarrow> b
      | VNum n \<Rightarrow> n \<noteq> NaN \<and> n \<noteq> Fin 0
      | VStr s \<Rightarrow> s \<noteq> []
      | VArr _ \<Rightarrow> True
      | VObj _ \<Rightarrow> True)"

fun js_to_string :: "jsval \<Rightarrow> error + string"
  and join_elems :: "jsval list \<Rightarrow> error + string" where
  \<comment> \<open>ToString. An array prints as \<^verbatim>\<open>join(",")\<close> of its elements, null and undefined
      elements as the empty string. A plain object prints through
      \<^verbatim>\<open>Object.prototype.toString\<close>, unless an own property named toString (never
      callable in parsed JSON) hides it: then neither toString nor valueOf yields a
      primitive and ToPrimitive throws a TypeError.\<close>
  "js_to_string VUndefined = Inr ''undefined''"
| "js_to_string VNull = Inr ''null''"
| "js_to_string (VBool b) = Inr (if b then ''true'' else ''false'')"
| "js_to_string (VNum n) = Inr (num_to_string n)"
| "js_to_string (VStr s) = Inr s"
| "js_to_string (VArr xs) = join_elems xs"
| "js_to_string (VObj kvs) =
     (if ''toString'' \<in> set (map fst kvs) then Inl TypeError else Inr ''[object Object]'')"
| "join_elems [] = Inr []"
| "join_elems (x # xs) =
     bindE (if x = VUndefined \<or> x = VNull then Inr [] else js_to_string x)
       (\<lambda>s. if xs = [] then Inr s else bindE (join_elems xs) (\<lambda>r. Inr (s @ '','' @ r)))"

definition ToNumber :: "jsval \<Rightarrow> error + jsnum" where
  \<comment> \<open>\<^verbatim>\<open>Number(v)\<close>; an array or object is first converted to a primitive, which for
      these values is its string\<close>
  "ToNumber v =
     (case v of
        VUndefined \<Rightarrow> Inr NaN
      | VNull \<Rightarrow> Inr (Fin 0)
      | VBool b \<Rightarrow> Inr (Fin (if b then 1 else 0))
      | VNum n \<Rightarrow> Inr n
      | VStr s \<Rightarrow> Inr (StringToNumber s)
      | VArr _ \<Rightarrow> bindE (js_to_string v) (\<lambda>s. Inr (StringToNumber s))
      | VObj _ \<Rightarrow> bindE (js_to_string v) (\<lambda>s. Inr (StringToNumber s)))"

definition index_of_key :: "string \<Rightarrow> int option" where
  \<comment> \<open>the array index a property key denotes: a decimal numeral without leading zeros\<close>
  "index_of_key k =
     (if k = [] \<or> (length k > 1 \<and> hd k = CHR ''0'') then None else digits_to_int 10 0 k)"

definition getProp :: "jsval \<Rightarrow> string \<Rightarrow> error + jsval" where
  \<comment> \<open>\<^verbatim>\<open>v[k]\<close> for the keys app.js reads: literal field names of the provider's payload
      and own keys from \<^verbatim>\<open>Object.keys\<close>. Reading a property of null or undefined throws;
      a primitive has no such property. Inherited members (methods) are not modelled.\<close>
  "getProp v k =
     (case v of
        VUndefined \<Rightarrow> Inl TypeError
      | VNull \<Rightarrow> Inl TypeError
      | VBool _ \<Rightarrow> Inr VUndefined
      | VNum _ \<Rightarrow> Inr VUndefined
      | VStr s \<Rightarrow>
          Inr (if k = ''length'' then VNum (Fin (of_nat (length s)))
               else (case index_of_key k of
                       Some i \<Rightarrow> if i < int (length s) then VStr [s ! nat i] else VUndefined
                     | None \<Rightarrow> VUndefined))
      | VArr xs \<Rightarrow>
          Inr (if k = ''length'' then VNum (Fin (of_nat (length xs)))
               else (case index_of_key k of
                       Some i \<Rightarrow> if i < int (length xs) then xs ! nat i else VUndefined
                     | None \<Rightarrow> VUndefined))
      | VObj kvs \<Rightarrow> Inr (case map_of kvs k of Some x \<Rightarrow> x | None \<Rightarrow> VUndefined))"

definition optGet :: "jsval \<Rightarrow> string \<Rightarrow> jsval" where
  \<comment> \<open>optional chaining \<^verbatim>\<open>v?.[k]\<close>: undefined when \<open>v\<close> is null or undefined\<close>
  "optGet v k = (case getProp v k of Inl _ \<Rightarrow> VUndefined | Inr x \<Rightarrow> x)"

definition object_keys :: "jsval \<Rightarrow> error + string list" where
  \<comment> \<open>\<^verbatim>\<open>Object.keys(v)\<close>, up to order (app.js sorts the result)\<close>
  "object_keys v =
     (case v of
        VUndefined \<Rightarrow> Inl TypeError
      | VNull \<Rightarrow> Inl TypeError
      | VBool _ \<Rightarrow> Inr []
      | VNum _ \<Rightarrow> Inr []
      | VStr s \<Rightarrow> Inr (map (\<lambda>i. decimal (int i)) [0..<length s])
      | VArr xs \<Rightarrow> Inr (map (\<lambda>i. decimal (int i)) [0..<length xs])
      | VObj kvs \<Rightarrow> Inr (remdups (map fst kvs)))"

definition key_at :: "string list \<Rightarrow> nat \<Rightarrow> string" where
  \<comment> \<open>\<^verbatim>\<open>keys[i]\<close> used as a property key: past the end it is undefined, which as a key is
      the string "undefined"\<close>
  "key_at ks i = (if i < length ks then ks ! i else ''undefined'')"

definition omit_key :: "string \<Rightarrow> jsval \<Rightarrow> jsval" where
  \<comment> \<open>\<^verbatim>\<open>const { k, ...rest } = d\<close>: the copy of \<open>d\<close> without its property \<open>k\<close>\<close>
  "omit_key k d = (case d of VObj kvs \<Rightarrow> VObj (filter (\<lambda>p. fst p \<noteq> k) kvs) | _ \<Rightarrow> VObj [])"

definition has_key :: "jsval \<Rightarrow> string \<Rightarrow> bool" where
  "has_key d k = (case d of VObj kvs \<Rightarrow> k \<in> set (map fst kvs) | _ \<Rightarrow> False)"

section \<open>The world outside: network, console, timers\<close>

text \<open>
  Every effect of app.js is recorded, in order, in a trace. The network is a parameter: it
  answers a request, given everything that happened before, either with a response body
  (\<open>Replied\<close>, as axios parses it) or with a failure (\<open>Failed\<close>: axios rejects on a
  transport error, a timeout or a non-2xx status, with an error carrying a message).
\<close>

datatype request = HttpGet string int | HttpPost string jsval int

datatype response = Failed string | Replied jsval

datatype event = Request request | ConsoleLog string string | Delay int

type_synonym network = "event list \<Rightarrow> request \<Rightarrow> response"

record config =
  API_KEY :: string
  EARLY_CUTOFF_MINUTES :: int
  TG_BOT_TOKEN :: "string option"
  TG_CHAT_ID :: "string option"
  net :: network

record world =
  trace :: "event list"
  lastDips :: "jsval list"

definition axios :: "config \<Rightarrow> request \<Rightarrow> world \<Rightarrow> (error + jsval) \<times> world" where
  \<comment> \<open>\<^verbatim>\<open>const { data } = await axios.get(url, { timeout })\<close>, and the same for post\<close>
  "axios cfg rq w =
     (let w' = w\<lparr>trace := trace w @ [Request rq]\<rparr>
      in case net cfg (trace w) rq of
           Failed msg \<Rightarrow> (Inl (AxiosError msg), w')
         | Replied d \<Rightarrow> (Inr d, w'))"

definition hex_digit :: "int \<Rightarrow> char" where
  "hex_digit d = (if d < 10 then char_of (48 + d) else char_of (55 + d))"

definition unreserved :: "char \<Rightarrow> bool" where
  \<comment> \<open>the characters encodeURIComponent leaves alone: letters, digits and - _ . ! ~ * ' ( )\<close>
  "unreserved c =
     (let v = (of_char c :: int)
      in (65 \<le> v \<and> v \<le> 90) \<or> (97 \<le> v \<and> v \<le> 122) \<or> (48 \<le> v \<and> v \<le> 57) \<or>
         v \<in> {45, 95, 46, 33, 126, 42, 39, 40, 41})"

definition encodeURIComponent :: "string \<Rightarrow> string" where
  "encodeURIComponent s =
     concat (map (\<lambda>c. if unreserved c then [c]
                       else [CHR ''%'', hex_digit (of_char c div 16), hex_digit (of_char c mod 16)]) s)"

section \<open>Notifiers\<close>

text \<open>
  The three classes of app.js. \<open>notify\<close> yields the value its promise resolves to; a method
  without a return statement yields undefined. A missing constructor argument or
  environment variable is \<open>None\<close>; it and the empty string are falsy.
\<close>

datatype notifier =
    Notifier
  | TelegramNotifier "string option" "string option"
  | ConsoleNotifier

definition present :: "string option \<Rightarrow> bool" where
  \<comment> \<open>truthiness of a string that may be undefined\<close>
  "present s = (case s of None \<Rightarrow> False | Some x \<Rightarrow> x \<noteq> [])"

definition console_log :: "string \<Rightarrow> string \<Rightarrow> world \<Rightarrow> world" where
  "console_log tag msg w = w\<lparr>trace := trace w @ [ConsoleLog tag msg]\<rparr>"

definition notify :: "config \<Rightarrow> notifier \<Rightarrow> string \<Rightarrow> world \<Rightarrow> jsval \<times> world" where
  "notify cfg n msg w =
     (case n of
        Notifier \<Rightarrow> (VUndefined, console_log ''[NOTIFY]'' msg w)
      | ConsoleNotifier \<Rightarrow> (VUndefined, console_log ''[ALERT]'' msg w)
      | TelegramNotifier botToken chatId \<Rightarrow>
          if \<not> present botToken \<or> \<not> present chatId
          then (VObj [(''ok'', VBool False), (''error'', VStr ''Missing Telegram credentials'')], w)
          else
            let url = ''https://api.telegram.org/bot'' @ the botToken @ ''/sendMessage'';
                payload = VObj [(''chat_id'', VStr (the chatId)), (''text'', VStr msg),
                                (''parse_mode'', VStr ''Markdown'')]
            in case axios cfg (HttpPost url payload 10000) w of
                 (Inr d, w') \<Rightarrow> (VObj [(''ok'', VBool True), (''telegram'', d)], w')
               | (Inl e, w') \<Rightarrow>
                   (VObj [(''ok'', VBool False), (''error'', VStr (message_of e))], w'))"

section \<open>Quote source\<close>

record quote =
  symbol :: string
  price :: jsnum
  prevClose :: jsnum
  source :: string

definition query_url :: "config \<Rightarrow> string \<Rightarrow> string \<Rightarrow> string \<Rightarrow> string" where
  "query_url cfg func symb extra =
     ''https://www.alphavantage.co/query?function='' @ func @ ''&symbol='' @
       encodeURIComponent symb @ extra @ ''&apikey='' @ API_KEY cfg"

definition catch_null :: "(error + 'a option) \<times> world \<Rightarrow> (error + 'a option) \<times> world" where
  \<comment> \<open>\<^verbatim>\<open>try { ... } catch { return null; }\<close> around a whole function body\<close>
  "catch_null r = (case r of (Inl _, w) \<Rightarrow> (Inr None, w) | (Inr x, w) \<Rightarrow> (Inr x, w))"

definition fetchDailyPrevClose :: "config \<Rightarrow> string \<Rightarrow> world \<Rightarrow> (error + jsnum option) \<times> world" where
  \<comment> \<open>the object \<^verbatim>\<open>{ prevClose }\<close> is modelled by its one field\<close>
  "fetchDailyPrevClose cfg symb w =
     catch_null
       (let url = query_url cfg ''TIME_SERIES_DAILY_ADJUSTED'' symb ''&outputsize=compact''
        in case axios cfg (HttpGet url 20000) w of
             (Inl e, w1) \<Rightarrow> (Inl e, w1)
           | (Inr data, w1) \<Rightarrow>
               let ts = optGet data ''Time Series (Daily)''
               in if \<not> truthy ts then (Inr None, w1)
                  else
                    (bindE (object_keys ts) (\<lambda>ks.
                       let days = rev (sort ks)
                       in bindE (getProp ts (key_at days 0)) (\<lambda>latest.
                          bindE (getProp ts (key_at days 1)) (\<lambda>prev.
                          bindE (if truthy prev then bindE (getProp prev ''4. close'') ToNumber
                                 else bindE (getProp latest ''4. close'') ToNumber) (\<lambda>prevCloseN.
                          Inr (Some prevCloseN))))),
                     w1))"

definition fetchIntraday5Min :: "config \<Rightarrow> string \<Rightarrow> world \<Rightarrow> (error + quote option) \<times> world" where
  "fetchIntraday5Min cfg symb w =
     catch_null
       (let url = query_url cfg ''TIME_SERIES_INTRADAY'' symb ''&interval=5min&outputsize=compact''
        in case axios cfg (HttpGet url 20000) w of
             (Inl e, w1) \<Rightarrow> (Inl e, w1)
           | (Inr data, w1) \<Rightarrow>
               let ts = optGet data ''Time Series (5min)''
               in if \<not> truthy ts then (Inr None, w1)
                  else
                    (case bindE (object_keys ts) (\<lambda>ks.
                            let times = rev (sort ks)
                            in bindE (getProp ts (key_at times 0)) (\<lambda>latest.
                               bindE (getProp latest ''4. close'') ToNumber)) of
                       Inl e \<Rightarrow> (Inl e, w1)
                     | Inr latestClose \<Rightarrow>
                         (case fetchDailyPrevClose cfg symb w1 of
                            (Inl e, w2) \<Rightarrow> (Inl e, w2)
                          | (Inr None, w2) \<Rightarrow> (Inr None, w2)
                          | (Inr (Some pc), w2) \<Rightarrow>
                              (Inr (Some \<lparr>symbol = symb, price = latestClose, prevClose = pc,
                                          source = ''INTRADAY+DAILY''\<rparr>), w2))))"

definition primary_fields :: "jsval \<Rightarrow> error + (jsval \<times> jsval) option" where
  \<comment> \<open>the tests \<^verbatim>\<open>!q["05. price"] || !q["08. previous close"]\<close> for a truthy \<open>q\<close>, left
      to right: \<open>None\<close> when one of the two fields is falsy\<close>
  "primary_fields q =
     bindE (getProp q ''05. price'') (\<lambda>p.
       if \<not> truthy p then Inr None
       else bindE (getProp q ''08. previous close'') (\<lambda>c.
         if \<not> truthy c then Inr None else Inr (Some (p, c))))"

definition fetchQuote :: "config \<Rightarrow> string \<Rightarrow> world \<Rightarrow> (error + quote option) \<times> world" where
  "fetchQuote cfg symb w =
     (let url = query_url cfg ''GLOBAL_QUOTE'' symb []
      in case axios cfg (HttpGet url 15000) w of
           (Inl e, w1) \<Rightarrow> (Inl e, w1)
         | (Inr data, w1) \<Rightarrow>
             let q = optGet data ''Global Quote''
             in if \<not> truthy q then fetchIntraday5Min cfg symb w1
                else
                  (case primary_fields q of
                     Inl e \<Rightarrow> (Inl e, w1)
                   | Inr None \<Rightarrow> fetchIntraday5Min cfg symb w1
                   | Inr (Some (p, c)) \<Rightarrow>
                       (bindE (ToNumber p) (\<lambda>priceN.
                        bindE (ToNumber c) (\<lambda>prevCloseN.
                        Inr (Some \<lparr>symbol = symb, price = priceN, prevClose = prevCloseN,
                                    source = ''GLOBAL_QUOTE''\<rparr>))),
                        w1)))"

section \<open>Dip detector\<close>

definition THRESHOLD_PCT :: jsnum where
  "THRESHOLD_PCT = Fin (- 1 / 2)"

definition pctChange :: "jsnum \<Rightarrow> jsnum \<Rightarrow> jsnum option" where
  "pctChange latest prior =
     (if \<not> isFinite latest \<or> \<not> isFinite prior \<or> prior = Fin 0 then None
      else Some (js_mul (js_div (js_sub latest prior) prior) (Fin 100)))"

section \<open>Formatting the clock reading\<close>

definition pad :: "nat \<Rightarrow> int \<Rightarrow> string" where
  \<comment> \<open>luxon's padStart: at least \<open>n\<close> digits, a minus sign in front of a negative number\<close>
  "pad n i =
     (let ds = decimal \<bar>i\<bar>;
          z = replicate (n - length ds) CHR ''0'' @ ds
      in if i < 0 then ''-'' @ z else z)"

definition civil :: "int \<Rightarrow> int \<times> int \<times> int" where
  \<comment> \<open>year, month and day of the proleptic Gregorian calendar for a day counted from
      1970-01-01\<close>
  "civil days =
     (let z = days + 719468;
          era = z div 146097;
          doe = z mod 146097;
          yoe = (doe - doe div 1460 + doe div 36524 - doe div 146096) div 365;
          doy = doe - (365 * yoe + yoe div 4 - yoe div 100);
          mp = (5 * doy + 2) div 153;
          d = doy - (153 * mp + 2) div 5 + 1;
          m = (if mp < 10 then mp + 3 else mp - 9);
          y = yoe + era * 400 + (if m \<le> 2 then 1 else 0)
      in (y, m, d))"

definition month_short :: "int \<Rightarrow> string" where
  \<comment> \<open>the token LLL in the English locale\<close>
  "month_short m =
     [''Jan'', ''Feb'', ''Mar'', ''Apr'', ''May'', ''Jun'',
      ''Jul'', ''Aug'', ''Sep'', ''Oct'', ''Nov'', ''Dec''] ! nat ((m - 1) mod 12)"

definition toFormat_dd_LLL_yyyy_HH_mm :: "DateTime \<Rightarrow> string" where
  \<comment> \<open>\<^verbatim>\<open>toFormat("dd LLL yyyy HH:mm")\<close>\<close>
  "toFormat_dd_LLL_yyyy_HH_mm t =
     (let (y, m, d) = civil (localDay t); ms = msOfDay t
      in pad 2 d @ '' '' @ month_short m @ '' '' @ pad 4 y @ '' '' @
         pad 2 (ms div 3600000) @ '':'' @ pad 2 (ms div 60000 mod 60))"

definition toISO :: "DateTime \<Rightarrow> string" where
  \<comment> \<open>\<^verbatim>\<open>toISO()\<close>: extended format with milliseconds and the offset of a named zone; a
      year outside 0 to 9999 is written with a sign and six digits\<close>
  "toISO t =
     (let (y, m, d) = civil (localDay t); ms = msOfDay t; off = offset t;
          long = (9999 < y \<or> y < 0)
      in (if long \<and> 0 \<le> y then ''+'' else []) @ pad (if long then 6 else 4) y @ ''-'' @
         pad 2 m @ ''-'' @ pad 2 d @ ''T'' @
         pad 2 (ms div 3600000) @ '':'' @ pad 2 (ms div 60000 mod 60) @ '':'' @
         pad 2 (ms div 1000 mod 60) @ ''.'' @ pad 3 (ms mod 1000) @
         (if off < 0 then ''-'' else ''+'') @ pad 2 (\<bar>off\<bar> div 60) @ '':'' @ pad 2 (\<bar>off\<bar> mod 60))"

section \<open>Watchlist scanner\<close>

record item =
  name :: string
  symbol :: string

definition WATCHLIST :: "item list" where
  "WATCHLIST =
     [\<lparr>name = ''Nifty 50 (NIFTYBEES)'', symbol = ''NIFTYBEES''\<rparr>,
      \<lparr>name = ''Nifty Next 50 (JUNIORBEES)'', symbol = ''JUNIORBEES''\<rparr>,
      \<lparr>name = ''Nifty Midcap 150 (NETFMID150)'', symbol = ''NETFMID150''\<rparr>,
      \<lparr>name = ''Nifty Smallcap 250 (MOTISMLCAP)'', symbol = ''MOTISMLCAP''\<rparr>,
      \<lparr>name = ''Nifty Bank (BANKBEES)'', symbol = ''BANKBEES''\<rparr>,
      \<lparr>name = ''Nifty IT (INFY)'', symbol = ''INFY''\<rparr>,
      \<lparr>name = ''Nifty FMCG (NIFTYFMCG)'', symbol = ''NIFTYFMCG''\<rparr>]"

definition alert_message :: "item \<Rightarrow> quote \<Rightarrow> jsnum \<Rightarrow> DateTime \<Rightarrow> string" where
  \<comment> \<open>the template literal \<open>msg\<close>; the police light and the rupee sign are written as
      their UTF-8 bytes\<close>
  "alert_message it q change nowIST =
     [char_of (0xF0 :: int), char_of (0x9F :: int), char_of (0x9A :: int), char_of (0xA8 :: int)] @
     '' Dip Alert'' @ [char_of (10 :: int)] @
     name it @ '' ('' @ item.symbol it @ '') is '' @ toFixed change 2 @ ''% vs prev close.'' @
     [char_of (10 :: int)] @
     ''Price: '' @ [char_of (0xE2 :: int), char_of (0x82 :: int), char_of (0xB9 :: int)] @
     toFixed (price q) 2 @ '' | Prev: '' @
     [char_of (0xE2 :: int), char_of (0x82 :: int), char_of (0xB9 :: int)] @
     toFixed (prevClose q) 2 @ [char_of (10 :: int)] @
     ''('' @ toFormat_dd_LLL_yyyy_HH_mm nowIST @ '' IST)''"

definition dip_record :: "item \<Rightarrow> quote \<Rightarrow> jsnum \<Rightarrow> DateTime \<Rightarrow> jsval \<Rightarrow> jsval" where
  \<comment> \<open>the object pushed onto \<open>dips\<close>\<close>
  "dip_record it q change nowIST telegramResponse =
     VObj [(''name'', VStr (name it)),
           (''symbol'', VStr (item.symbol it)),
           (''price'', VNum (price q)),
           (''prevClose'', VNum (prevClose q)),
           (''change'', VNum (StringToNumber (toFixed change 2))),
           (''time'', VStr (toISO nowIST)),
           (''telegram'', telegramResponse)]"

definition deliver :: "config \<Rightarrow> notifier \<Rightarrow> bool \<Rightarrow> string \<Rightarrow> world \<Rightarrow> jsval \<times> world" where
  \<comment> \<open>the block that sets \<open>telegramResponse\<close>\<close>
  "deliver cfg notifier skipNotify msg w =
     (if \<not> skipNotify then
        (let (r, w1) = notify cfg notifier msg w
         in if present (TG_BOT_TOKEN cfg) \<and> present (TG_CHAT_ID cfg)
            then notify cfg (TelegramNotifier (TG_BOT_TOKEN cfg) (TG_CHAT_ID cfg)) msg w1
            else (VNull, w1))
      else (VNull, w))"

definition scan_item ::
  "config \<Rightarrow> notifier \<Rightarrow> bool \<Rightarrow> DateTime \<Rightarrow> nat \<Rightarrow> item \<Rightarrow> jsval list \<times> world \<Rightarrow> jsval list \<times> world" where
  \<comment> \<open>one turn of the loop over the watch list; an exception in the turn ends the turn\<close>
  "scan_item cfg notifier skipNotify nowIST i it st =
     (let (dips, w) = st;
          w0 = (if 0 < i then w\<lparr>trace := trace w @ [Delay 1300]\<rparr> else w)
      in case fetchQuote cfg (item.symbol it) w0 of
           (Inl e, w1) \<Rightarrow> (dips, w1)
         | (Inr None, w1) \<Rightarrow> (dips, w1)
         | (Inr (Some q), w1) \<Rightarrow>
             (case pctChange (price q) (prevClose q) of
                None \<Rightarrow> (dips, w1)
              | Some change \<Rightarrow>
                  if js_le change THRESHOLD_PCT then
                    (let msg = alert_message it q change nowIST;
                         (telegramResponse, w2) = deliver cfg notifier skipNotify msg w1
                     in (dips @ [dip_record it q change nowIST telegramResponse], w2))
                  else (dips, w1)))"

fun scan_loop ::
  "config \<Rightarrow> notifier \<Rightarrow> bool \<Rightarrow> DateTime \<Rightarrow> nat \<Rightarrow> item list \<Rightarrow> jsval list \<times> world \<Rightarrow> jsval list \<times> world" where
  "scan_loop cfg notifier skipNotify nowIST i [] st = st"
| "scan_loop cfg notifier skipNotify nowIST i (it # rest) st =
     scan_loop cfg notifier skipNotify nowIST (Suc i) rest
       (scan_item cfg notifier skipNotify nowIST i it st)"

record scan_result =
  ok :: bool
  message :: "string option"
  dips :: "jsval list"

definition checkWatchlist :: "config \<Rightarrow> notifier \<Rightarrow> bool \<Rightarrow> int \<Rightarrow> world \<Rightarrow> scan_result \<times> world" where
  \<comment> \<open>the fourth argument is the reading of \<^verbatim>\<open>DateTime.now()\<close>, in epoch milliseconds\<close>
  "checkWatchlist cfg notifier skipNotify now w =
     (let nowIST = setZoneKolkata now
      in if \<not> isWithinTradingAlertWindow (EARLY_CUTOFF_MINUTES cfg) nowIST
         then (\<lparr>ok = False, message = Some ''Outside alert window'', dips = []\<rparr>, w)
         else
           let (ds, w1) = scan_loop cfg notifier skipNotify nowIST 0 WATCHLIST ([], w)
           in (\<lparr>ok = True, message = None, dips = ds\<rparr>,
               w1\<lparr>lastDips := map (omit_key ''telegram'') ds\<rparr>))"

section \<open>Request handler\<close>

record req =
  url :: string
  httpMethod :: string

record res =
  headers :: "(string \<times> string) list"
  status :: int
  body :: jsval

definition handler :: "config \<Rightarrow> req \<Rightarrow> int \<Rightarrow> world \<Rightarrow> res \<times> world" where
  \<comment> \<open>the third argument is the clock reading the scan takes, should it run\<close>
  "handler cfg rq now w =
     (if url rq = ''/get'' \<and> httpMethod rq = ''GET''
      then (\<lparr>headers = [(''Content-Type'', ''application/json'')], status = 200,
              body = VObj [(''ok'', VBool True), (''dips'', VArr (lastDips w))]\<rparr>, w)
      else
        let (result, w1) = checkWatchlist cfg ConsoleNotifier False now w;
            ds = map (omit_key ''telegram'') (dips result);
            telegramResponses = filter truthy (map (\<lambda>d. optGet d ''telegram'') (dips result))
        in (\<lparr>headers = [(''Content-Type'', ''application/json'')], status = 200,
              body = VObj [(''ok'', VBool (ok result)), (''dips'', VArr ds),
                           (''telegram'', if telegramResponses \<noteq> [] then VArr telegramResponses
                                          else VUndefined)]\<rparr>, w1))"

text \<open>
  The states the process can reach: it starts with an empty Result Cache, the module runs
  one scan when it is loaded, and from then on scans and requests follow one another, each
  with any clock reading, notifier and flag.
\<close>

inductive reachable :: "config \<Rightarrow> world \<Rightarrow> bool" for cfg :: config where
  start: "reachable cfg \<lparr>trace = [], lastDips = []\<rparr>"
| scan: "reachable cfg w \<Longrightarrow> reachable cfg (snd (checkWatchlist cfg n skip now w))"
| request: "reachable cfg w \<Longrightarrow> reachable cfg (snd (handler cfg rq now w))"

section \<open>Predicates of the properties\<close>

definition dip_at :: "DateTime \<Rightarrow> jsval \<Rightarrow> bool" where
  \<comment> \<open>\<open>d\<close> is the record the scan at \<open>t\<close> builds for some instrument whose quote shows a dip\<close>
  "dip_at t d \<longleftrightarrow>
     (\<exists>it q ch tg. d = dip_record it q ch t tg \<and>
        pctChange (price q) (prevClose q) = Some ch \<and> js_le ch THRESHOLD_PCT)"

definition grows :: "world \<Rightarrow> world \<Rightarrow> bool" where
  \<comment> \<open>\<open>w'\<close> is \<open>w\<close> after some more events\<close>
  "grows w w' \<longleftrightarrow> (\<exists>evs. trace w' = trace w @ evs)"

definition dip_from ::
  "config \<Rightarrow> notifier \<Rightarrow> bool \<Rightarrow> DateTime \<Rightarrow> item list \<Rightarrow> world \<Rightarrow> world \<Rightarrow> jsval \<Rightarrow> bool" where
  \<comment> \<open>\<open>d\<close> is the record of a turn of the loop, between the worlds \<open>ws\<close> and \<open>wend\<close>: the turn
      fetched the quote \<open>q\<close> of an instrument of the list, found the dip \<open>ch\<close>, delivered
      the alert message and built \<open>d\<close>\<close>
  "dip_from cfg n skip t its ws wend d \<longleftrightarrow>
     (\<exists>it q ch tg w0 w1 w2.
        it \<in> set its \<and> grows ws w0 \<and>
        fetchQuote cfg (item.symbol it) w0 = (Inr (Some q), w1) \<and>
        pctChange (price q) (prevClose q) = Some ch \<and> js_le ch THRESHOLD_PCT \<and>
        deliver cfg n skip (alert_message it q ch t) w1 = (tg, w2) \<and> grows w2 wend \<and>
        d = dip_record it q ch t tg)"

definition after :: "world \<Rightarrow> request \<Rightarrow> world" where
  \<comment> \<open>the world once the request has been made\<close>
  "after w rq = w\<lparr>trace := trace w @ [Request rq]\<rparr>"

definition primary_request :: "config \<Rightarrow> string \<Rightarrow> request" where
  \<comment> \<open>the request \<open>fetchQuote\<close> makes first\<close>
  "primary_request cfg s = HttpGet (query_url cfg ''GLOBAL_QUOTE'' s []) 15000"

definition intraday_request :: "config \<Rightarrow> string \<Rightarrow> request" where
  \<comment> \<open>the request of \<open>fetchIntraday5Min\<close>\<close>
  "intraday_request cfg s =
     HttpGet (query_url cfg ''TIME_SERIES_INTRADAY'' s ''&interval=5min&outputsize=compact'') 20000"

definition daily_request :: "config \<Rightarrow> string \<Rightarrow> request" where
  \<comment> \<open>the request of \<open>fetchDailyPrevClose\<close>\<close>
  "daily_request cfg s =
     HttpGet (query_url cfg ''TIME_SERIES_DAILY_ADJUSTED'' s ''&outputsize=compact'') 20000"

section \<open>Example scenarios\<close>

text \<open>
  Concrete configurations, networks and worlds, used to run the definitions on explicit
  inputs.
\<close>

definition world0 :: world where
  \<comment> \<open>the process right after start: nothing has happened, the Result Cache is empty\<close>
  "world0 = \<lparr>trace = [], lastDips = []\<rparr>"

definition demo_reply :: jsval where
  \<comment> \<open>a GLOBAL_QUOTE reply of the provider: 98.30 against a previous close of 100.00\<close>
  "demo_reply =
     VObj [(''Global Quote'',
            VObj [(''01. symbol'', VStr ''NIFTYBEES''),
                  (''05. price'', VStr ''98.3000''),
                  (''08. previous close'', VStr ''100.0000'')])]"

definition demo_net :: network where
  \<comment> \<open>answers the first request with \<open>demo_reply\<close> and fails from then on\<close>
  "demo_net tr rq = (if tr = [] then Replied demo_reply else Failed ''Network Error'')"

definition demo_config :: config where
  "demo_config =
     \<lparr>API_KEY = ''demo'', EARLY_CUTOFF_MINUTES = 15, TG_BOT_TOKEN = None, TG_CHAT_ID = None,
      net = demo_net\<rparr>"

definition failing_config :: config where
  \<comment> \<open>a network on which every request times out\<close>
  "failing_config = demo_config\<lparr>net := (\<lambda>tr rq. Failed ''timeout of 15000ms exceeded'')\<rparr>"

definition zero_price_config :: config where
  \<comment> \<open>the provider answers every request with a quote whose price field is "0.0000"\<close>
  "zero_price_config =
     demo_config\<lparr>net := (\<lambda>tr rq. Replied
       (VObj [(''Global Quote'',
               VObj [(''05. price'', VStr ''0.0000''),
                     (''08. previous close'', VStr ''100.0000'')])]))\<rparr>"

definition garbled_config :: config where
  \<comment> \<open>the provider answers every request with a quote whose price field is no number\<close>
  "garbled_config =
     demo_config\<lparr>net := (\<lambda>tr rq. Replied
       (VObj [(''Global Quote'',
               VObj [(''05. price'', VStr ''n/a''),
                     (''08. previous close'', VStr ''-100.0000'')])]))\<rparr>"

definition flaky_config :: config where
  \<comment> \<open>the first request fails; the next one, the primary request for the second instrument,
      is answered with \<open>demo_reply\<close>; every later request fails\<close>
  "flaky_config =
     demo_config\<lparr>net := (\<lambda>tr rq. if length tr = 2 then Replied demo_reply
                                 else Failed ''Network Error'')\<rparr>"

definition limit_note :: jsval where
  \<comment> \<open>the provider's reply when it sends no quote\<close>
  "limit_note = VObj [(''Note'', VStr ''Thank you for using Alpha Vantage!'')]"

definition daily_reply :: jsval where
  "daily_reply =
     VObj [(''Time Series (Daily)'',
            VObj [(''2026-10-30'', VObj [(''4. close'', VStr ''100.0000'')]),
                  (''2026-11-02'', VObj [(''4. close'', VStr ''99.0000'')])])]"

definition malformed_config :: config where
  \<comment> \<open>no primary quote; an intraday series whose latest bar has no "4. close" field; a
      well-formed daily series\<close>
  "malformed_config =
     demo_config\<lparr>net := (\<lambda>tr rq.
       case tr of
         [] \<Rightarrow> Replied limit_note
       | [a] \<Rightarrow> Replied (VObj [(''Time Series (5min)'',
                               VObj [(''2026-11-02 09:55:00'', VObj [(''4. close'', VStr ''98.5000'')]),
                                     (''2026-11-02 10:00:00'', VObj [(''1. open'', VStr ''98.3000'')])])])
       | [a, b] \<Rightarrow> Replied daily_reply
       | _ \<Rightarrow> Failed ''Network Error'')\<rparr>"

definition no_daily_config :: config where
  \<comment> \<open>no primary quote; a well-formed intraday series; the daily request fails\<close>
  "no_daily_config =
     demo_config\<lparr>net := (\<lambda>tr rq.
       case tr of
         [] \<Rightarrow> Replied limit_note
       | [a] \<Rightarrow> Replied (VObj [(''Time Series (5min)'',
                               VObj [(''2026-11-02 10:00:00'', VObj [(''4. close'', VStr ''98.3000'')])])])
       | _ \<Rightarrow> Failed ''Network Error'')\<rparr>"

definition hostile_config :: config where
  \<comment> \<open>a primary quote whose price is an object with an own property named toString\<close>
  "hostile_config =
     demo_config\<lparr>net := (\<lambda>tr rq. Replied
       (VObj [(''Global Quote'',
               VObj [(''05. price'', VObj [(''toString'', VNum (Fin 1))]),
                     (''08. previous close'', VStr ''100.0000'')])]))\<rparr>"

section \<open>Properties of the time window gate\<close>

lemma weekday_range: "1 \<le> weekday t \<and> weekday t \<le> 7"
proof -
  have "0 \<le> (localDay t + 4) mod 7" "(localDay t + 4) mod 7 < 7"
    by simp_all
  then show ?thesis
    unfolding weekday_def Let_def by auto
qed

lemma ts_split: "ts t = localDay t * 86400000 + msOfDay t - offset t * 60000"
  unfolding localDay_def msOfDay_def localTS_def
  using div_mult_mod_eq [of "ts t + offset t * 60000" 86400000] by linarith

lemma set_time_same_day:
  assumes "0 \<le> clock h m s ms" and "clock h m s ms < 86400000"
  shows "localDay (set_time t h m s ms) = localDay t"
    and "msOfDay (set_time t h m s ms) = clock h m s ms"
proof -
  have l: "localTS (set_time t h m s ms) = localDay t * 86400000 + clock h m s ms"
    by (simp add: set_time_def localTS_def)
  show "localDay (set_time t h m s ms) = localDay t"
    unfolding localDay_def [of "set_time t h m s ms"] l using assms by simp
  show "msOfDay (set_time t h m s ms) = clock h m s ms"
    unfolding msOfDay_def l using assms by simp
qed

lemma start_le_iff: "ts (set_time t h m s ms) \<le> ts t \<longleftrightarrow> clock h m s ms \<le> msOfDay t"
  using ts_split [of t] by (simp add: set_time_def)

lemma le_cutoff_iff:
  "ts t \<le> ts (minus_minutes (set_time t h m s ms) n) \<longleftrightarrow> msOfDay t \<le> clock h m s ms - n * 60000"
  using ts_split [of t] by (simp add: set_time_def minus_minutes_def)

text \<open>
  C1. For a cutoff \<open>EARLY_CUTOFF_MINUTES\<close> that is not negative: on Saturday (6) and
  Sunday (7) the gate answers false. On a weekday it answers true exactly when the instant
  lies between that day's 09:20:00.000 and that day's 15:00:00.000 minus
  \<open>EARLY_CUTOFF_MINUTES\<close> minutes, wall clock time of the zone, both bounds included.
  The first line reads the bounds as instants, the second as the wall clock time of day.
\<close>

theorem isWithinTradingAlertWindow_spec:
  assumes "0 \<le> e"
  shows
  "(weekday t = 6 \<or> weekday t = 7 \<longrightarrow> \<not> isWithinTradingAlertWindow e t) \<and>
   (weekday t \<le> 5 \<longrightarrow>
      (isWithinTradingAlertWindow e t \<longleftrightarrow>
         ts (set_time t 9 20 0 0) \<le> ts t \<and> ts t \<le> ts (set_time t 15 0 0 0) - e * 60000) \<and>
      (isWithinTradingAlertWindow e t \<longleftrightarrow>
         clock 9 20 0 0 \<le> msOfDay t \<and> msOfDay t \<le> clock 15 0 0 0 - e * 60000))"
proof -
  have weekend: "weekday t = 6 \<or> weekday t = 7 \<longrightarrow> \<not> isWithinTradingAlertWindow e t"
    by (auto simp: isWithinTradingAlertWindow_def)
  have inst: "weekday t \<le> 5 \<longrightarrow>
      (isWithinTradingAlertWindow e t \<longleftrightarrow>
         ts (set_time t 9 20 0 0) \<le> ts t \<and> ts t \<le> ts (set_time t 15 0 0 0) - e * 60000)"
    by (auto simp: isWithinTradingAlertWindow_def Let_def minus_minutes_def)
  have wall: "weekday t \<le> 5 \<longrightarrow>
      (isWithinTradingAlertWindow e t \<longleftrightarrow>
         clock 9 20 0 0 \<le> msOfDay t \<and> msOfDay t \<le> clock 15 0 0 0 - e * 60000)"
    using start_le_iff [of t 9 20 0 0] le_cutoff_iff [of t 15 0 0 0 e]
    by (auto simp: isWithinTradingAlertWindow_def Let_def)
  from weekend inst wall show ?thesis by blast
qed

text \<open>
  Witness for C1 with the default cutoff of 15 minutes: Monday 2 November 2026 at 09:20:00.000
  and at 14:45:00.000 IST (both bounds) are inside, 09:19:59.999 and 14:45:00.001 are outside,
  and Saturday 7 November 2026 at 10:00 IST is outside.
\<close>

theorem isWithinTradingAlertWindow_spec_witness:
  "(0::int) \<le> 15 \<and>
   weekday (setZoneKolkata 1793591400000) = 1 \<and>
   isWithinTradingAlertWindow 15 (setZoneKolkata 1793591400000) \<and>
   isWithinTradingAlertWindow 15 (setZoneKolkata 1793610900000) \<and>
   \<not> isWithinTradingAlertWindow 15 (setZoneKolkata 1793591399999) \<and>
   \<not> isWithinTradingAlertWindow 15 (setZoneKolkata 1793610900001) \<and>
   weekday (setZoneKolkata 1794025800000) = 6 \<and>
   \<not> isWithinTradingAlertWindow 15 (setZoneKolkata 1794025800000)"
proof -
  have wd: "weekday (setZoneKolkata 1793591400000) = 1"
    "weekday (setZoneKolkata 1793610900000) = 1"
    "weekday (setZoneKolkata 1793591399999) = 1"
    "weekday (setZoneKolkata 1793610900001) = 1"
    "weekday (setZoneKolkata 1794025800000) = 6"
    by (simp_all add: weekday_def localDay_def localTS_def setZoneKolkata_def)
  have ms: "msOfDay (setZoneKolkata 1793591400000) = 33600000"
    "msOfDay (setZoneKolkata 1793610900000) = 53100000"
    "msOfDay (setZoneKolkata 1793591399999) = 33599999"
    "msOfDay (setZoneKolkata 1793610900001) = 53100001"
    by (simp_all add: msOfDay_def localTS_def setZoneKolkata_def)
  have cutoff: "(0::int) \<le> 15"
    by simp
  note spec = isWithinTradingAlertWindow_spec [OF cutoff]
  note wall = spec [THEN conjunct2, rule_format, THEN conjunct2]
  note weekend = spec [THEN conjunct1, rule_format]
  have "isWithinTradingAlertWindow 15 (setZoneKolkata 1793591400000)"
    using wall [of "setZoneKolkata 1793591400000"] by (simp add: wd ms clock_def)
  moreover have "isWithinTradingAlertWindow 15 (setZoneKolkata 1793610900000)"
    using wall [of "setZoneKolkata 1793610900000"] by (simp add: wd ms clock_def)
  moreover have "\<not> isWithinTradingAlertWindow 15 (setZoneKolkata 1793591399999)"
    using wall [of "setZoneKolkata 1793591399999"] by (simp add: wd ms clock_def)
  moreover have "\<not> isWithinTradingAlertWindow 15 (setZoneKolkata 1793610900001)"
    using wall [of "setZoneKolkata 1793610900001"] by (simp add: wd ms clock_def)
  moreover have "\<not> isWithinTradingAlertWindow 15 (setZoneKolkata 1794025800000)"
    using weekend [of "setZoneKolkata 1794025800000"] by (simp add: wd)
  ultimately show ?thesis by (simp add: wd)
qed

text \<open>
  C10. 15:00 is 340 minutes after 09:20. With \<open>EARLY_CUTOFF_MINUTES\<close> above 340 the cutoff
  instant lies before the start instant of the same day, and the gate rejects every instant.
\<close>

theorem cutoff_above_340_window_empty:
  "340 < e \<Longrightarrow> ts (minus_minutes (set_time t 15 0 0 0) e) < ts (set_time t 9 20 0 0) \<and>
     \<not> isWithinTradingAlertWindow e t"
  by (auto simp: isWithinTradingAlertWindow_def Let_def set_time_def minus_minutes_def clock_def)

theorem cutoff_above_340_window_empty_witness:
  "(340::int) < 341 \<and> \<not> isWithinTradingAlertWindow 341 (setZoneKolkata 1793591400000) \<and>
   isWithinTradingAlertWindow 340 (setZoneKolkata 1793591400000)"
proof -
  have "\<not> isWithinTradingAlertWindow 341 (setZoneKolkata 1793591400000)"
    using cutoff_above_340_window_empty [of 341 "setZoneKolkata 1793591400000"] by simp
  moreover have "isWithinTradingAlertWindow 340 (setZoneKolkata 1793591400000)"
    by (simp add: isWithinTradingAlertWindow_def Let_def set_time_def minus_minutes_def
        clock_def weekday_def localDay_def localTS_def setZoneKolkata_def)
  ultimately show ?thesis by simp
qed

section \<open>Properties of the notifiers\<close>

text \<open>
  C8 (as the code has it). The console notifier writes the line \<^verbatim>\<open>[ALERT] message\<close> to the
  console and its promise resolves to undefined: it reports no delivery result at all. It
  makes no request and has no failing branch.
\<close>

theorem console_notify_returns_undefined:
  "notify cfg ConsoleNotifier msg w =
     (VUndefined, w\<lparr>trace := trace w @ [ConsoleLog ''[ALERT]'' msg]\<rparr>)"
  by (simp add: notify_def console_log_def)

theorem console_notify_returns_undefined_witness:
  "notify demo_config ConsoleNotifier ''hello'' world0 =
     (VUndefined, \<lparr>trace = [ConsoleLog ''[ALERT]'' ''hello''], lastDips = []\<rparr>)"
  using console_notify_returns_undefined [of demo_config "''hello''" world0]
  by (simp add: world0_def)

text \<open>
  C8 as stated fails: the value the console notifier reports has no field \<open>ok\<close> equal to
  true; it is undefined, and reading a field of it throws.
\<close>

theorem console_notify_reports_no_delivery:
  "fst (notify demo_config ConsoleNotifier ''hello'' world0) = VUndefined \<and>
   getProp (fst (notify demo_config ConsoleNotifier ''hello'' world0)) ''ok'' \<noteq> Inr (VBool True)"
  by (simp add: notify_def getProp_def)

text \<open>
  C9. When the bot token or the chat id of a Telegram notifier is absent (or the empty
  string), \<open>notify\<close> answers \<^verbatim>\<open>{ ok: false, error: "Missing Telegram credentials" }\<close> and
  leaves the world as it was: no request is made.
\<close>

theorem telegram_notify_missing_credentials:
  "\<not> present botToken \<or> \<not> present chatId \<Longrightarrow>
   notify cfg (TelegramNotifier botToken chatId) msg w =
     (VObj [(''ok'', VBool False), (''error'', VStr ''Missing Telegram credentials'')], w)"
  by (auto simp: notify_def)

theorem telegram_notify_missing_credentials_witness:
  "\<not> present None \<and>
   notify demo_config (TelegramNotifier None (Some ''42'')) ''hello'' world0 =
     (VObj [(''ok'', VBool False), (''error'', VStr ''Missing Telegram credentials'')], world0) \<and>
   notify demo_config (TelegramNotifier (Some ''123:abc'') None) ''hello'' world0 =
     (VObj [(''ok'', VBool False), (''error'', VStr ''Missing Telegram credentials'')], world0)"
  using telegram_notify_missing_credentials [of None "Some ''42''" demo_config "''hello''" world0]
    telegram_notify_missing_credentials [of "Some ''123:abc''" None demo_config "''hello''" world0]
  by (simp add: present_def)

section \<open>Properties of the dip detector\<close>



section \<open>Properties of the scan outside the alert window\<close>

text \<open>
  C3. A scan at an instant the time window gate rejects returns at once
  \<^verbatim>\<open>{ ok: false, message: "Outside alert window", dips: [] }\<close> (the specification's
  succeeded, statusMessage and dips) and leaves the world as it was: the trace gains no
  event, so no quote source request is made, and the Result Cache keeps its content.
\<close>

theorem checkWatchlist_outside_window:
  "\<not> isWithinTradingAlertWindow (EARLY_CUTOFF_MINUTES cfg) (setZoneKolkata now) \<Longrightarrow>
   checkWatchlist cfg n skip now w =
     (\<lparr>ok = False, message = Some ''Outside alert window'', dips = []\<rparr>, w)"
  by (simp add: checkWatchlist_def)

theorem checkWatchlist_outside_window_witness:
  "\<not> isWithinTradingAlertWindow (EARLY_CUTOFF_MINUTES demo_config) (setZoneKolkata 1794025800000) \<and>
   checkWatchlist demo_config ConsoleNotifier False 1794025800000
       \<lparr>trace = [Delay 1300], lastDips = [VObj [(''name'', VStr ''x'')]]\<rparr> =
     (\<lparr>ok = False, message = Some ''Outside alert window'', dips = []\<rparr>,
      \<lparr>trace = [Delay 1300], lastDips = [VObj [(''name'', VStr ''x'')]]\<rparr>)"
proof -
  have out: "\<not> isWithinTradingAlertWindow (EARLY_CUTOFF_MINUTES demo_config)
      (setZoneKolkata 1794025800000)"
    by (simp add: isWithinTradingAlertWindow_def weekday_def localDay_def localTS_def
        setZoneKolkata_def)
  from checkWatchlist_outside_window [OF out] out show ?thesis
    by simp
qed

section \<open>Properties of the scan\<close>

lemma scan_item_dips:
  assumes "scan_item cfg n skip t i it (ds, w) = (ds', w')"
  shows "ds' = ds \<or> (\<exists>d. ds' = ds @ [d] \<and> dip_at t d)"
proof -
  from assms have "ds' = ds \<or>
    (\<exists>q ch tg. ds' = ds @ [dip_record it q ch t tg] \<and>
       pctChange (price q) (prevClose q) = Some ch \<and> js_le ch THRESHOLD_PCT)"
    by (auto simp: scan_item_def Let_def split: prod.splits sum.splits option.splits if_splits)
  then show ?thesis
    unfolding dip_at_def by blast
qed

lemma scan_loop_dips:
  assumes "scan_loop cfg n skip t i its (ds, w) = (ds', w')"
    and "\<forall>d \<in> set ds. dip_at t d"
  shows "\<forall>d \<in> set ds'. dip_at t d"
  using assms
proof (induction its arbitrary: i ds w)
  case Nil
  then show ?case by simp
next
  case (Cons it rest)
  obtain ds1 w1 where step: "scan_item cfg n skip t i it (ds, w) = (ds1, w1)"
    by (cases "scan_item cfg n skip t i it (ds, w)")
  from Cons.prems(1) step have rest: "scan_loop cfg n skip t (Suc i) rest (ds1, w1) = (ds', w')"
    by simp
  from scan_item_dips [OF step] Cons.prems(2) have "\<forall>d \<in> set ds1. dip_at t d"
    by auto
  from Cons.IH [OF rest this] show ?case .
qed

lemma checkWatchlist_dips:
  "\<forall>d \<in> set (dips (fst (checkWatchlist cfg n skip now w))). dip_at (setZoneKolkata now) d"
proof (cases "isWithinTradingAlertWindow (EARLY_CUTOFF_MINUTES cfg) (setZoneKolkata now)")
  case False
  then show ?thesis by (simp add: checkWatchlist_def)
next
  case True
  obtain ds w1 where loop:
    "scan_loop cfg n skip (setZoneKolkata now) 0 WATCHLIST ([], w) = (ds, w1)"
    by (cases "scan_loop cfg n skip (setZoneKolkata now) 0 WATCHLIST ([], w)")
  from scan_loop_dips [OF loop] have "\<forall>d \<in> set ds. dip_at (setZoneKolkata now) d"
    by simp
  with True loop show ?thesis
    by (simp add: checkWatchlist_def)
qed

lemma omit_key_no_key: "\<not> has_key (omit_key k d) k"
  by (auto simp: omit_key_def has_key_def split: jsval.splits)

lemma omit_telegram_dip_record:
  "omit_key ''telegram'' (dip_record it q ch t tg) =
     VObj [(''name'', VStr (name it)),
           (''symbol'', VStr (item.symbol it)),
           (''price'', VNum (price q)),
           (''prevClose'', VNum (prevClose q)),
           (''change'', VNum (StringToNumber (toFixed ch 2))),
           (''time'', VStr (toISO t))]"
  by (simp add: omit_key_def dip_record_def)

lemma checkWatchlist_cache:
  "lastDips (snd (checkWatchlist cfg n skip now w)) =
     (if isWithinTradingAlertWindow (EARLY_CUTOFF_MINUTES cfg) (setZoneKolkata now)
      then map (omit_key ''telegram'') (dips (fst (checkWatchlist cfg n skip now w)))
      else lastDips w)"
  by (simp add: checkWatchlist_def Let_def split: prod.splits)

lemma checkWatchlist_keeps_invariant:
  assumes "\<forall>d \<in> set (lastDips w). \<not> has_key d ''telegram''"
  shows "\<forall>d \<in> set (lastDips (snd (checkWatchlist cfg n skip now w))). \<not> has_key d ''telegram''"
  using assms by (auto simp: checkWatchlist_cache omit_key_no_key)

lemma handler_world:
  "snd (handler cfg rq now w) = w \<or>
   snd (handler cfg rq now w) = snd (checkWatchlist cfg ConsoleNotifier False now w)"
  by (simp add: handler_def Let_def split: prod.splits)

lemma reachable_cache_invariant:
  "reachable cfg w \<Longrightarrow> \<forall>d \<in> set (lastDips w). \<not> has_key d ''telegram''"
proof (induction rule: reachable.induct)
  case start
  then show ?case by simp
next
  case (scan w n skip now)
  from scan.IH show ?case by (rule checkWatchlist_keeps_invariant)
next
  case (request w rq now)
  from handler_world [of cfg rq now w] show ?case
  proof
    assume "snd (handler cfg rq now w) = w"
    with request.IH show ?thesis by simp
  next
    assume "snd (handler cfg rq now w) = snd (checkWatchlist cfg ConsoleNotifier False now w)"
    with checkWatchlist_keeps_invariant [OF request.IH] show ?thesis by simp
  qed
qed

lemma demo_in_window:
  "isWithinTradingAlertWindow (EARLY_CUTOFF_MINUTES demo_config) (setZoneKolkata 1793593800000)"
  by (simp add: isWithinTradingAlertWindow_def Let_def set_time_def minus_minutes_def
      clock_def weekday_def localDay_def localTS_def setZoneKolkata_def demo_config_def)

lemma demo_scan_dips:
  "dips (fst (checkWatchlist demo_config ConsoleNotifier False 1793593800000 world0)) =
     [VObj [(''name'', VStr ''Nifty 50 (NIFTYBEES)''),
            (''symbol'', VStr ''NIFTYBEES''),
            (''price'', VNum (Fin (6917247552664371 / 70368744177664))),
            (''prevClose'', VNum (Fin 100)),
            (''change'', VNum (Fin (- (7656119366529843 / 4503599627370496)))),
            (''time'', VStr ''2026-11-02T10:00:00.000+05:30''),
            (''telegram'', VNull)]]"
  by code_simp

text \<open>
  C4. A scan that passed the window gate succeeds and overwrites the Result Cache with its
  dip sequence, each record copied without its \<open>telegram\<close> field: the cached record has
  exactly the fields name, symbol, price, prevClose, change and time. In every state the
  process can reach, no record of the Result Cache has a \<open>telegram\<close> field.
\<close>

theorem result_cache_spec:
  "(isWithinTradingAlertWindow (EARLY_CUTOFF_MINUTES cfg) (setZoneKolkata now) \<longrightarrow>
      ok (fst (checkWatchlist cfg n skip now w)) \<and>
      lastDips (snd (checkWatchlist cfg n skip now w)) =
        map (omit_key ''telegram'') (dips (fst (checkWatchlist cfg n skip now w))) \<and>
      (\<forall>c \<in> set (lastDips (snd (checkWatchlist cfg n skip now w))).
         \<exists>(it :: item) (q :: quote) ch. c = VObj [(''name'', VStr (name it)),
                             (''symbol'', VStr (item.symbol it)),
                             (''price'', VNum (price q)),
                             (''prevClose'', VNum (prevClose q)),
                             (''change'', VNum (StringToNumber (toFixed ch 2))),
                             (''time'', VStr (toISO (setZoneKolkata now)))])) \<and>
   (reachable cfg w' \<longrightarrow> (\<forall>d \<in> set (lastDips w'). \<not> has_key d ''telegram''))"
proof (intro conjI impI)
  assume inwin: "isWithinTradingAlertWindow (EARLY_CUTOFF_MINUTES cfg) (setZoneKolkata now)"
  then show "ok (fst (checkWatchlist cfg n skip now w))"
    by (simp add: checkWatchlist_def Let_def split: prod.splits)
  from inwin show cache: "lastDips (snd (checkWatchlist cfg n skip now w)) =
      map (omit_key ''telegram'') (dips (fst (checkWatchlist cfg n skip now w)))"
    by (simp add: checkWatchlist_cache)
  show "\<forall>c \<in> set (lastDips (snd (checkWatchlist cfg n skip now w))).
         \<exists>(it :: item) (q :: quote) ch. c = VObj [(''name'', VStr (name it)),
                             (''symbol'', VStr (item.symbol it)),
                             (''price'', VNum (price q)),
                             (''prevClose'', VNum (prevClose q)),
                             (''change'', VNum (StringToNumber (toFixed ch 2))),
                             (''time'', VStr (toISO (setZoneKolkata now)))]"
  proof
    fix c
    assume "c \<in> set (lastDips (snd (checkWatchlist cfg n skip now w)))"
    with cache obtain d where d: "d \<in> set (dips (fst (checkWatchlist cfg n skip now w)))"
      and c: "c = omit_key ''telegram'' d"
      by auto
    from checkWatchlist_dips d obtain it q ch tg
      where "d = dip_record it q ch (setZoneKolkata now) tg"
      unfolding dip_at_def by blast
    then have "c = omit_key ''telegram'' (dip_record it q ch (setZoneKolkata now) tg)"
      using c by simp
    then have shape: "c =
        VObj [(''name'', VStr (name it)),
              (''symbol'', VStr (item.symbol it)),
              (''price'', VNum (price q)),
              (''prevClose'', VNum (prevClose q)),
              (''change'', VNum (StringToNumber (toFixed ch 2))),
              (''time'', VStr (toISO (setZoneKolkata now)))]"
      by (simp add: omit_telegram_dip_record)
    show "\<exists>(it :: item) (q :: quote) ch. c =
        VObj [(''name'', VStr (name it)),
              (''symbol'', VStr (item.symbol it)),
              (''price'', VNum (price q)),
              (''prevClose'', VNum (prevClose q)),
              (''change'', VNum (StringToNumber (toFixed ch 2))),
              (''time'', VStr (toISO (setZoneKolkata now)))]"
      by (rule exI [of _ it], rule exI [of _ q], rule exI [of _ ch]) (rule shape)
  qed
next
  assume "reachable cfg w'"
  then show "\<forall>d \<in> set (lastDips w'). \<not> has_key d ''telegram''"
    by (rule reachable_cache_invariant)
qed

text \<open>
  Witness for C4: the scan of Monday 2 November 2026, 10:00 IST, on the demo network finds
  one dip; the state after it is reachable, and its Result Cache holds that dip without the
  \<open>telegram\<close> field.
\<close>

theorem result_cache_spec_witness:
  "isWithinTradingAlertWindow (EARLY_CUTOFF_MINUTES demo_config) (setZoneKolkata 1793593800000) \<and>
   reachable demo_config (snd (checkWatchlist demo_config ConsoleNotifier False 1793593800000 world0)) \<and>
   lastDips (snd (checkWatchlist demo_config ConsoleNotifier False 1793593800000 world0)) =
     [VObj [(''name'', VStr ''Nifty 50 (NIFTYBEES)''),
            (''symbol'', VStr ''NIFTYBEES''),
            (''price'', VNum (Fin (6917247552664371 / 70368744177664))),
            (''prevClose'', VNum (Fin 100)),
            (''change'', VNum (Fin (- (7656119366529843 / 4503599627370496)))),
            (''time'', VStr ''2026-11-02T10:00:00.000+05:30'')]] \<and>
   \<not> has_key (hd (lastDips (snd (checkWatchlist demo_config ConsoleNotifier False 1793593800000 world0))))
       ''telegram''"
proof -
  let ?r = "checkWatchlist demo_config ConsoleNotifier False 1793593800000 world0"
  have reach: "reachable demo_config (snd ?r)"
    unfolding world0_def by (rule reachable.scan [OF reachable.start])
  note spec = result_cache_spec [of demo_config 1793593800000 ConsoleNotifier False world0 "snd ?r"]
  from spec demo_in_window have cache: "lastDips (snd ?r) = map (omit_key ''telegram'') (dips (fst ?r))"
    by blast
  then have val: "lastDips (snd ?r) =
     [VObj [(''name'', VStr ''Nifty 50 (NIFTYBEES)''),
            (''symbol'', VStr ''NIFTYBEES''),
            (''price'', VNum (Fin (6917247552664371 / 70368744177664))),
            (''prevClose'', VNum (Fin 100)),
            (''change'', VNum (Fin (- (7656119366529843 / 4503599627370496)))),
            (''time'', VStr ''2026-11-02T10:00:00.000+05:30'')]]"
    by (simp add: demo_scan_dips omit_key_def)
  from spec reach have "\<forall>d \<in> set (lastDips (snd ?r)). \<not> has_key d ''telegram''"
    by blast
  with val have "\<not> has_key (hd (lastDips (snd ?r))) ''telegram''"
    by simp
  with demo_in_window reach val show ?thesis
    by simp
qed

section \<open>Properties of the quote source\<close>

lemma catch_null_total: "\<exists>r. fst (catch_null x) = Inr r"
  by (cases x) (auto simp: catch_null_def split: sum.splits)

lemma fetchIntraday5Min_total: "\<exists>r. fst (fetchIntraday5Min cfg s w) = Inr r"
  unfolding fetchIntraday5Min_def by (rule catch_null_total)

lemma fetchDailyPrevClose_total: "\<exists>r. fst (fetchDailyPrevClose cfg s w) = Inr r"
  unfolding fetchDailyPrevClose_def by (rule catch_null_total)

lemma fetchIntraday5Min_transport_error:
  assumes "net cfg (trace w)
      (HttpGet (query_url cfg ''TIME_SERIES_INTRADAY'' s ''&interval=5min&outputsize=compact'') 20000) =
    Failed m"
  shows "fst (fetchIntraday5Min cfg s w) = Inr None"
  using assms by (simp add: fetchIntraday5Min_def axios_def catch_null_def Let_def)

lemma fetchIntraday5Min_missing_series:
  assumes "net cfg (trace w)
      (HttpGet (query_url cfg ''TIME_SERIES_INTRADAY'' s ''&interval=5min&outputsize=compact'') 20000) =
    Replied data"
    and "\<not> truthy (optGet data ''Time Series (5min)'')"
  shows "fst (fetchIntraday5Min cfg s w) = Inr None"
  using assms by (simp add: fetchIntraday5Min_def axios_def catch_null_def Let_def)

lemma fetchIntraday5Min_Some:
  assumes "fst (fetchIntraday5Min cfg s w) = Inr (Some q)"
  shows "quote.symbol q = s \<and> source q = ''INTRADAY+DAILY'' \<and>
    fst (fetchDailyPrevClose cfg s
      (w\<lparr>trace := trace w @ [Request (HttpGet
         (query_url cfg ''TIME_SERIES_INTRADAY'' s ''&interval=5min&outputsize=compact'') 20000)]\<rparr>)) =
      Inr (Some (prevClose q))"
  using assms
  by (auto simp: fetchIntraday5Min_def axios_def catch_null_def Let_def
      split: response.splits sum.splits option.splits prod.splits if_splits)

lemma primary_fields_truthy: "truthy q \<Longrightarrow> \<exists>r. primary_fields q = Inr r"
  by (cases q) (auto simp: primary_fields_def getProp_def bindE_def truthy_def)

lemma primary_fields_Some:
  assumes "primary_fields q = Inr (Some (p, c))"
  shows "getProp q ''05. price'' = Inr p \<and> getProp q ''08. previous close'' = Inr c \<and>
    truthy p \<and> truthy c"
  using assms by (auto simp: primary_fields_def bindE_def split: sum.splits if_splits)

lemma fetchQuote_transport_error:
  assumes "net cfg (trace w) (HttpGet (query_url cfg ''GLOBAL_QUOTE'' s []) 15000) = Failed m"
  shows "fst (fetchQuote cfg s w) = Inl (AxiosError m)"
  using assms by (simp add: fetchQuote_def axios_def Let_def)

lemma js_to_string_error:
  "js_to_string v = Inl e \<Longrightarrow> e = TypeError"
  "join_elems xs = Inl e \<Longrightarrow> e = TypeError"
  by (induction v and xs rule: js_to_string_join_elems.induct)
    (auto simp: bindE_def split: sum.splits if_splits)

lemma ToNumber_error: "ToNumber v = Inl e \<Longrightarrow> e = TypeError"
  by (auto simp: ToNumber_def bindE_def split: jsval.splits sum.splits if_splits
      dest: js_to_string_error)

lemma fetchQuote_throws:
  assumes "fst (fetchQuote cfg s w) = Inl e"
  shows "(\<exists>m. net cfg (trace w) (HttpGet (query_url cfg ''GLOBAL_QUOTE'' s []) 15000) = Failed m \<and>
            e = AxiosError m) \<or>
         (\<exists>data p c. net cfg (trace w) (HttpGet (query_url cfg ''GLOBAL_QUOTE'' s []) 15000) = Replied data \<and>
            primary_fields (optGet data ''Global Quote'') = Inr (Some (p, c)) \<and>
            (ToNumber p = Inl e \<or> ToNumber c = Inl e) \<and> e = TypeError)"
proof (cases "net cfg (trace w) (HttpGet (query_url cfg ''GLOBAL_QUOTE'' s []) 15000)")
  case (Failed m)
  with assms fetchQuote_transport_error [OF Failed] show ?thesis by simp
next
  case (Replied data)
  let ?w1 = "w\<lparr>trace := trace w @ [Request (HttpGet (query_url cfg ''GLOBAL_QUOTE'' s []) 15000)]\<rparr>"
  let ?q = "optGet data ''Global Quote''"
  show ?thesis
  proof (cases "truthy ?q")
    case False
    with Replied have "fetchQuote cfg s w = fetchIntraday5Min cfg s ?w1"
      by (simp add: fetchQuote_def axios_def Let_def)
    with assms fetchIntraday5Min_total [of cfg s ?w1] show ?thesis by auto
  next
    case True
    from primary_fields_truthy [OF True] obtain r where r: "primary_fields ?q = Inr r" ..
    show ?thesis
    proof (cases r)
      case None
      with Replied True r have "fetchQuote cfg s w = fetchIntraday5Min cfg s ?w1"
        by (simp add: fetchQuote_def axios_def Let_def)
      with assms fetchIntraday5Min_total [of cfg s ?w1] show ?thesis by auto
    next
      case (Some pc)
      obtain p c where pc: "pc = (p, c)" by (cases pc)
      from Replied True r Some pc assms
      have "ToNumber p = Inl e \<or> ToNumber c = Inl e"
        by (auto simp: fetchQuote_def axios_def Let_def bindE_def split: sum.splits)
      moreover from this have "e = TypeError"
        using ToNumber_error by blast
      ultimately show ?thesis
        using Replied r Some pc by blast
    qed
  qed
qed

lemma fetchQuote_Some:
  assumes "fst (fetchQuote cfg s w) = Inr (Some q)"
  shows "quote.symbol q = s \<and> (source q = ''GLOBAL_QUOTE'' \<or> source q = ''INTRADAY+DAILY'') \<and>
    (source q = ''GLOBAL_QUOTE'' \<longrightarrow>
       (\<exists>data p c. net cfg (trace w) (HttpGet (query_url cfg ''GLOBAL_QUOTE'' s []) 15000) = Replied data \<and>
          getProp (optGet data ''Global Quote'') ''05. price'' = Inr p \<and>
          getProp (optGet data ''Global Quote'') ''08. previous close'' = Inr c \<and>
          truthy p \<and> truthy c \<and>
          ToNumber p = Inr (price q) \<and> ToNumber c = Inr (prevClose q)))"
proof (cases "net cfg (trace w) (HttpGet (query_url cfg ''GLOBAL_QUOTE'' s []) 15000)")
  case (Failed m)
  with assms fetchQuote_transport_error [OF Failed] show ?thesis by simp
next
  case (Replied data)
  let ?w1 = "w\<lparr>trace := trace w @ [Request (HttpGet (query_url cfg ''GLOBAL_QUOTE'' s []) 15000)]\<rparr>"
  let ?q = "optGet data ''Global Quote''"
  have fallback: ?thesis if "fetchQuote cfg s w = fetchIntraday5Min cfg s ?w1"
  proof -
    from that assms have "fst (fetchIntraday5Min cfg s ?w1) = Inr (Some q)" by simp
    from fetchIntraday5Min_Some [OF this] show ?thesis by simp
  qed
  show ?thesis
  proof (cases "truthy ?q")
    case False
    with Replied have "fetchQuote cfg s w = fetchIntraday5Min cfg s ?w1"
      by (simp add: fetchQuote_def axios_def Let_def)
    then show ?thesis by (rule fallback)
  next
    case True
    from primary_fields_truthy [OF True] obtain r where r: "primary_fields ?q = Inr r" ..
    show ?thesis
    proof (cases r)
      case None
      with Replied True r have "fetchQuote cfg s w = fetchIntraday5Min cfg s ?w1"
        by (simp add: fetchQuote_def axios_def Let_def)
      then show ?thesis by (rule fallback)
    next
      case (Some pc)
      obtain p c where pc: "pc = (p, c)" by (cases pc)
      from Replied True r Some pc assms
      have q: "ToNumber p = Inr (price q)" "ToNumber c = Inr (prevClose q)"
        "quote.symbol q = s" "source q = ''GLOBAL_QUOTE''"
        by (auto simp: fetchQuote_def axios_def Let_def bindE_def split: sum.splits)
      from r Some pc have "primary_fields ?q = Inr (Some (p, c))" by simp
      from primary_fields_Some [OF this] q Replied show ?thesis by blast
    qed
  qed
qed

lemma scan_item_skips:
  assumes "(\<exists>e. fst (fetchQuote cfg (item.symbol it)
               (if 0 < i then w\<lparr>trace := trace w @ [Delay 1300]\<rparr> else w)) = Inl e) \<or>
           fst (fetchQuote cfg (item.symbol it)
               (if 0 < i then w\<lparr>trace := trace w @ [Delay 1300]\<rparr> else w)) = Inr None"
  shows "fst (scan_item cfg n skip t i it (ds, w)) = ds"
proof (cases "0 < i")
  case True
  with assms show ?thesis
    by (auto simp: scan_item_def Let_def split: prod.splits sum.splits option.splits)
next
  case False
  with assms show ?thesis
    by (auto simp: scan_item_def Let_def split: prod.splits sum.splits option.splits)
qed

lemma pctChange_Some_finite:
  "pctChange p c = Some ch \<Longrightarrow> isFinite p \<and> isFinite c \<and> c \<noteq> Fin 0"
  by (auto simp: pctChange_def split: if_splits)

section \<open>Failures of the quote source\<close>

lemma fetchDailyPrevClose_transport_error:
  assumes "net cfg (trace w) (daily_request cfg s) = Failed m"
  shows "fst (fetchDailyPrevClose cfg s w) = Inr None"
  using assms
  by (simp add: fetchDailyPrevClose_def axios_def catch_null_def Let_def daily_request_def)

lemma fetchDailyPrevClose_missing_series:
  assumes "net cfg (trace w) (daily_request cfg s) = Replied data"
    and "\<not> truthy (optGet data ''Time Series (Daily)'')"
  shows "fst (fetchDailyPrevClose cfg s w) = Inr None"
  using assms
  by (simp add: fetchDailyPrevClose_def axios_def catch_null_def Let_def daily_request_def)

lemma fetchIntraday5Min_daily_null:
  assumes "fst (fetchDailyPrevClose cfg s (after w (intraday_request cfg s))) = Inr None"
  shows "fst (fetchIntraday5Min cfg s w) = Inr None"
proof -
  obtain r where r: "fst (fetchIntraday5Min cfg s w) = Inr r"
    using fetchIntraday5Min_total by blast
  show ?thesis
  proof (cases r)
    case None
    with r show ?thesis by simp
  next
    case (Some q)
    with r fetchIntraday5Min_Some [of cfg s w q] assms show ?thesis
      by (simp add: after_def intraday_request_def)
  qed
qed

lemma primary_fields_Some_truthy: "primary_fields q = Inr (Some x) \<Longrightarrow> truthy q"
  by (cases q)
    (auto simp: primary_fields_def getProp_def bindE_def truthy_def index_of_key_def
      split: if_splits option.splits)

lemma fetchQuote_TypeError:
  assumes "net cfg (trace w) (primary_request cfg s) = Replied data"
    and "primary_fields (optGet data ''Global Quote'') = Inr (Some (p, c))"
    and "ToNumber p = Inl e \<or> ToNumber c = Inl e"
  shows "fst (fetchQuote cfg s w) = Inl TypeError"
proof -
  from primary_fields_Some_truthy [OF assms(2)] have t: "truthy (optGet data ''Global Quote'')" .
  have "\<exists>e'. fst (fetchQuote cfg s w) = Inl e'"
    using assms t
    by (auto simp: fetchQuote_def axios_def Let_def bindE_def primary_request_def
        split: sum.splits)
  then obtain e' where e': "fst (fetchQuote cfg s w) = Inl e'" ..
  from fetchQuote_throws [OF e'] assms(1) have "e' = TypeError"
    by (auto simp: primary_request_def)
  with e' show ?thesis by simp
qed

lemma fetchQuote_fallback:
  assumes "net cfg (trace w) (primary_request cfg s) = Replied data"
    and "\<not> truthy (optGet data ''Global Quote'') \<or>
         primary_fields (optGet data ''Global Quote'') = Inr None"
  shows "fetchQuote cfg s w = fetchIntraday5Min cfg s (after w (primary_request cfg s))"
  using assms
  by (auto simp: fetchQuote_def axios_def Let_def primary_request_def after_def)

lemma scan_item_no_dip:
  assumes "(\<exists>e. fst r = Inl e) \<or> fst r = Inr None \<or>
           (\<exists>q. fst r = Inr (Some q) \<and> pctChange (price q) (prevClose q) = None)"
    and "r = fetchQuote cfg (item.symbol it)
               (if 0 < i then w\<lparr>trace := trace w @ [Delay 1300]\<rparr> else w)"
  shows "scan_item cfg n skip t i it (ds, w) = (ds, snd r)"
proof -
  let ?w = "if 0 < i then w\<lparr>trace := trace w @ [Delay 1300]\<rparr> else w"
  obtain a b where ab: "fetchQuote cfg (item.symbol it) ?w = (a, b)"
    by (cases "fetchQuote cfg (item.symbol it) ?w")
  with assms have a: "(\<exists>e. a = Inl e) \<or> a = Inr None \<or>
      (\<exists>q. a = Inr (Some q) \<and> pctChange (price q) (prevClose q) = None)"
    and r: "snd r = b"
    by simp_all
  show ?thesis
  proof (cases "0 < i")
    case True
    with ab have "fetchQuote cfg (item.symbol it) (w\<lparr>trace := trace w @ [Delay 1300]\<rparr>) = (a, b)"
      by simp
    with a r True show ?thesis
      by (auto simp: scan_item_def Let_def)
  next
    case False
    with ab have "fetchQuote cfg (item.symbol it) w = (a, b)"
      by simp
    with a r False show ?thesis
      by (auto simp: scan_item_def Let_def)
  qed
qed

text \<open>
  C2 as stated fails twice. When the primary request fails in transport, \<open>fetchQuote\<close>
  returns nothing: the error of axios propagates to its caller. And a malformed payload on
  the fallback path, a latest bar without a "4. close" field, does not give null but a quote
  whose price is NaN.
\<close>

theorem fetchQuote_propagates_transport_error:
  "fst (fetchQuote failing_config ''NIFTYBEES'' world0) =
     Inl (AxiosError ''timeout of 15000ms exceeded'') \<and>
   fst (fetchQuote malformed_config ''NIFTYBEES'' world0) =
     Inr (Some \<lparr>quote.symbol = ''NIFTYBEES'', price = NaN, prevClose = Fin 100,
                source = ''INTRADAY+DAILY''\<rparr>)"
proof -
  have "fst (fetchQuote failing_config ''NIFTYBEES'' world0) =
      Inl (AxiosError ''timeout of 15000ms exceeded'')"
    by (simp add: fetchQuote_def axios_def failing_config_def Let_def)
  moreover have "fst (fetchQuote malformed_config ''NIFTYBEES'' world0) =
     Inr (Some \<lparr>quote.symbol = ''NIFTYBEES'', price = NaN, prevClose = Fin 100,
                source = ''INTRADAY+DAILY''\<rparr>)"
    by code_simp
  ultimately show ?thesis by simp
qed

text \<open>
  C2 (as the code has it).
  \<^item> \<open>fetchIntraday5Min\<close> and \<open>fetchDailyPrevClose\<close> never throw. Each returns null when
    its request fails in transport or its series is missing (falsy), and
    \<open>fetchIntraday5Min\<close> returns null when \<open>fetchDailyPrevClose\<close> does.
  \<^item> \<open>fetchQuote\<close> throws exactly when the primary request fails in transport (it throws
    the error of axios) or \<open>Number\<close> throws on one of the two primary fields (a TypeError).
  \<^item> When the primary reply has no truthy quote, price or previous close, \<open>fetchQuote\<close>
    returns what \<open>fetchIntraday5Min\<close> returns after that request; so a transport error
    or a missing series of the intraday or of the daily request makes it return null.
  \<^item> When \<open>fetchQuote\<close> throws, returns null, or returns a quote for which \<open>pctChange\<close> is
    null, the turn of the loop adds no dip record, and the loop goes on with the next
    instrument from the world that \<open>fetchQuote\<close> left.
\<close>

theorem fetchQuote_failure_policy:
  "(\<exists>r. fst (fetchIntraday5Min cfg s w) = Inr r) \<and>
   (\<exists>r. fst (fetchDailyPrevClose cfg s w) = Inr r) \<and>
   (net cfg (trace w) (daily_request cfg s) = Failed m \<longrightarrow>
      fst (fetchDailyPrevClose cfg s w) = Inr None) \<and>
   (net cfg (trace w) (daily_request cfg s) = Replied data \<and>
      \<not> truthy (optGet data ''Time Series (Daily)'') \<longrightarrow>
      fst (fetchDailyPrevClose cfg s w) = Inr None) \<and>
   (net cfg (trace w) (intraday_request cfg s) = Failed m \<longrightarrow>
      fst (fetchIntraday5Min cfg s w) = Inr None) \<and>
   (net cfg (trace w) (intraday_request cfg s) = Replied data \<and>
      \<not> truthy (optGet data ''Time Series (5min)'') \<longrightarrow>
      fst (fetchIntraday5Min cfg s w) = Inr None) \<and>
   (fst (fetchDailyPrevClose cfg s (after w (intraday_request cfg s))) = Inr None \<longrightarrow>
      fst (fetchIntraday5Min cfg s w) = Inr None) \<and>
   (net cfg (trace w) (primary_request cfg s) = Failed m \<longrightarrow>
      fst (fetchQuote cfg s w) = Inl (AxiosError m)) \<and>
   (net cfg (trace w) (primary_request cfg s) = Replied data \<and>
      primary_fields (optGet data ''Global Quote'') = Inr (Some (p, c)) \<and>
      (ToNumber p = Inl e \<or> ToNumber c = Inl e) \<longrightarrow>
      fst (fetchQuote cfg s w) = Inl TypeError) \<and>
   (fst (fetchQuote cfg s w) = Inl e \<longrightarrow>
      (\<exists>m. net cfg (trace w) (primary_request cfg s) = Failed m \<and> e = AxiosError m) \<or>
      (\<exists>data p c. net cfg (trace w) (primary_request cfg s) = Replied data \<and>
         primary_fields (optGet data ''Global Quote'') = Inr (Some (p, c)) \<and>
         (ToNumber p = Inl e \<or> ToNumber c = Inl e) \<and> e = TypeError)) \<and>
   (net cfg (trace w) (primary_request cfg s) = Replied data \<and>
      (\<not> truthy (optGet data ''Global Quote'') \<or>
       primary_fields (optGet data ''Global Quote'') = Inr None) \<longrightarrow>
      fetchQuote cfg s w = fetchIntraday5Min cfg s (after w (primary_request cfg s)) \<and>
      ((\<exists>m'. net cfg (trace (after w (primary_request cfg s))) (intraday_request cfg s) = Failed m') \<or>
       (\<exists>d2. net cfg (trace (after w (primary_request cfg s))) (intraday_request cfg s) = Replied d2 \<and>
          \<not> truthy (optGet d2 ''Time Series (5min)'')) \<or>
       fst (fetchDailyPrevClose cfg s
              (after (after w (primary_request cfg s)) (intraday_request cfg s))) = Inr None \<longrightarrow>
       fst (fetchQuote cfg s w) = Inr None)) \<and>
   ((\<exists>e. fst r = Inl e) \<or> fst r = Inr None \<or>
      (\<exists>q. fst r = Inr (Some q) \<and> pctChange (price q) (prevClose q) = None) \<longrightarrow>
    r = fetchQuote cfg (item.symbol it)
          (if 0 < i then w\<lparr>trace := trace w @ [Delay 1300]\<rparr> else w) \<longrightarrow>
      scan_item cfg n skip t i it (ds, w) = (ds, snd r) \<and>
      scan_loop cfg n skip t i (it # rest) (ds, w) =
        scan_loop cfg n skip t (Suc i) rest (ds, snd r))"
proof -
  let ?w1 = "after w (primary_request cfg s)"
  have a1: "\<exists>r. fst (fetchIntraday5Min cfg s w) = Inr r"
    by (rule fetchIntraday5Min_total)
  have a2: "\<exists>r. fst (fetchDailyPrevClose cfg s w) = Inr r"
    by (rule fetchDailyPrevClose_total)
  have a3: "net cfg (trace w) (daily_request cfg s) = Failed m \<longrightarrow>
      fst (fetchDailyPrevClose cfg s w) = Inr None"
    using fetchDailyPrevClose_transport_error by blast
  have a4: "net cfg (trace w) (daily_request cfg s) = Replied data \<and>
      \<not> truthy (optGet data ''Time Series (Daily)'') \<longrightarrow>
      fst (fetchDailyPrevClose cfg s w) = Inr None"
    using fetchDailyPrevClose_missing_series by blast
  have a5: "net cfg (trace w) (intraday_request cfg s) = Failed m \<longrightarrow>
      fst (fetchIntraday5Min cfg s w) = Inr None"
    using fetchIntraday5Min_transport_error [of cfg w s m] by (simp add: intraday_request_def)
  have a6: "net cfg (trace w) (intraday_request cfg s) = Replied data \<and>
      \<not> truthy (optGet data ''Time Series (5min)'') \<longrightarrow>
      fst (fetchIntraday5Min cfg s w) = Inr None"
    using fetchIntraday5Min_missing_series [of cfg w s data] by (simp add: intraday_request_def)
  have a7: "fst (fetchDailyPrevClose cfg s (after w (intraday_request cfg s))) = Inr None \<longrightarrow>
      fst (fetchIntraday5Min cfg s w) = Inr None"
    using fetchIntraday5Min_daily_null by blast
  have a8: "net cfg (trace w) (primary_request cfg s) = Failed m \<longrightarrow>
      fst (fetchQuote cfg s w) = Inl (AxiosError m)"
    using fetchQuote_transport_error [of cfg w s m] by (simp add: primary_request_def)
  have a9: "net cfg (trace w) (primary_request cfg s) = Replied data \<and>
      primary_fields (optGet data ''Global Quote'') = Inr (Some (p, c)) \<and>
      (ToNumber p = Inl e \<or> ToNumber c = Inl e) \<longrightarrow>
      fst (fetchQuote cfg s w) = Inl TypeError"
    using fetchQuote_TypeError by blast
  have a10: "fst (fetchQuote cfg s w) = Inl e \<longrightarrow>
      (\<exists>m. net cfg (trace w) (primary_request cfg s) = Failed m \<and> e = AxiosError m) \<or>
      (\<exists>data p c. net cfg (trace w) (primary_request cfg s) = Replied data \<and>
         primary_fields (optGet data ''Global Quote'') = Inr (Some (p, c)) \<and>
         (ToNumber p = Inl e \<or> ToNumber c = Inl e) \<and> e = TypeError)"
    using fetchQuote_throws [of cfg s w e] by (simp add: primary_request_def)
  have a11: "net cfg (trace w) (primary_request cfg s) = Replied data \<and>
      (\<not> truthy (optGet data ''Global Quote'') \<or>
       primary_fields (optGet data ''Global Quote'') = Inr None) \<longrightarrow>
      fetchQuote cfg s w = fetchIntraday5Min cfg s ?w1 \<and>
      ((\<exists>m'. net cfg (trace ?w1) (intraday_request cfg s) = Failed m') \<or>
       (\<exists>d2. net cfg (trace ?w1) (intraday_request cfg s) = Replied d2 \<and>
          \<not> truthy (optGet d2 ''Time Series (5min)'')) \<or>
       fst (fetchDailyPrevClose cfg s (after ?w1 (intraday_request cfg s))) = Inr None \<longrightarrow>
       fst (fetchQuote cfg s w) = Inr None)"
  proof (intro impI conjI)
    assume fb: "net cfg (trace w) (primary_request cfg s) = Replied data \<and>
      (\<not> truthy (optGet data ''Global Quote'') \<or>
       primary_fields (optGet data ''Global Quote'') = Inr None)"
    then show eq: "fetchQuote cfg s w = fetchIntraday5Min cfg s ?w1"
      using fetchQuote_fallback by blast
    assume "(\<exists>m'. net cfg (trace ?w1) (intraday_request cfg s) = Failed m') \<or>
       (\<exists>d2. net cfg (trace ?w1) (intraday_request cfg s) = Replied d2 \<and>
          \<not> truthy (optGet d2 ''Time Series (5min)'')) \<or>
       fst (fetchDailyPrevClose cfg s (after ?w1 (intraday_request cfg s))) = Inr None"
    then have "fst (fetchIntraday5Min cfg s ?w1) = Inr None"
      using fetchIntraday5Min_transport_error [of cfg ?w1 s]
        fetchIntraday5Min_missing_series [of cfg ?w1 s]
        fetchIntraday5Min_daily_null [of cfg s ?w1]
      by (auto simp: intraday_request_def)
    with eq show "fst (fetchQuote cfg s w) = Inr None" by simp
  qed
  have a12: "(\<exists>e. fst r = Inl e) \<or> fst r = Inr None \<or>
      (\<exists>q. fst r = Inr (Some q) \<and> pctChange (price q) (prevClose q) = None) \<longrightarrow>
    r = fetchQuote cfg (item.symbol it)
          (if 0 < i then w\<lparr>trace := trace w @ [Delay 1300]\<rparr> else w) \<longrightarrow>
      scan_item cfg n skip t i it (ds, w) = (ds, snd r) \<and>
      scan_loop cfg n skip t i (it # rest) (ds, w) =
        scan_loop cfg n skip t (Suc i) rest (ds, snd r)"
  proof (intro impI)
    assume "(\<exists>e. fst r = Inl e) \<or> fst r = Inr None \<or>
      (\<exists>q. fst r = Inr (Some q) \<and> pctChange (price q) (prevClose q) = None)"
      and "r = fetchQuote cfg (item.symbol it)
          (if 0 < i then w\<lparr>trace := trace w @ [Delay 1300]\<rparr> else w)"
    from scan_item_no_dip [OF this]
    have "scan_item cfg n skip t i it (ds, w) = (ds, snd r)" .
    then show "scan_item cfg n skip t i it (ds, w) = (ds, snd r) \<and>
      scan_loop cfg n skip t i (it # rest) (ds, w) =
        scan_loop cfg n skip t (Suc i) rest (ds, snd r)"
      by simp
  qed
  from a1 a2 a3 a4 a5 a6 a7 a8 a9 a10 a11 a12 show ?thesis
    by (intro conjI)
qed

text \<open>
  Witness for C2. On a network where every request times out, the two fallback functions
  return null and \<open>fetchQuote\<close> throws the error of axios. A price that is an object with
  an own \<open>toString\<close> property makes \<open>fetchQuote\<close> throw a TypeError. When the primary reply
  has no quote and the daily request fails, \<open>fetchQuote\<close> returns null. When the primary
  request for the first instrument fails, the loop goes on with the second instrument, whose
  dip is the only one recorded. A quote whose price is NaN adds no dip record.
\<close>

theorem fetchQuote_failure_policy_witness:
  "fst (fetchIntraday5Min failing_config ''NIFTYBEES'' world0) = Inr None \<and>
   fst (fetchDailyPrevClose failing_config ''NIFTYBEES'' world0) = Inr None \<and>
   fst (fetchDailyPrevClose (demo_config\<lparr>net := (\<lambda>tr rq. Replied limit_note)\<rparr>) ''NIFTYBEES'' world0) =
     Inr None \<and>
   fst (fetchQuote failing_config ''NIFTYBEES'' world0) =
     Inl (AxiosError ''timeout of 15000ms exceeded'') \<and>
   fst (fetchQuote hostile_config ''NIFTYBEES'' world0) = Inl TypeError \<and>
   fst (fetchQuote no_daily_config ''NIFTYBEES'' world0) = Inr None \<and>
   fst (fetchQuote (demo_config\<lparr>net := (\<lambda>tr rq. Replied limit_note)\<rparr>) ''NIFTYBEES'' world0) =
     Inr None \<and>
   scan_loop flaky_config ConsoleNotifier False (setZoneKolkata 1793593800000) 0 WATCHLIST
       ([], world0) =
     scan_loop flaky_config ConsoleNotifier False (setZoneKolkata 1793593800000) 1 (tl WATCHLIST)
       ([], snd (fetchQuote flaky_config ''NIFTYBEES'' world0)) \<and>
   map (\<lambda>d. optGet d ''symbol'')
     (dips (fst (checkWatchlist flaky_config ConsoleNotifier False 1793593800000 world0))) =
     [VStr ''JUNIORBEES''] \<and>
   fst (scan_item malformed_config ConsoleNotifier False (setZoneKolkata 1793593800000) 0
          (hd WATCHLIST) ([], world0)) = []"
proof -
  let ?t = "setZoneKolkata 1793593800000"
  let ?noquote = "demo_config\<lparr>net := (\<lambda>tr rq. Replied limit_note)\<rparr>"
  have sym: "item.symbol (hd WATCHLIST) = ''NIFTYBEES''"
    by (simp add: WATCHLIST_def)
  have wl: "WATCHLIST = hd WATCHLIST # tl WATCHLIST"
    by (simp add: WATCHLIST_def)
  have fnet: "net failing_config tr rq = Failed ''timeout of 15000ms exceeded''" for tr rq
    by (simp add: failing_config_def)
  note failing = fetchQuote_failure_policy [where cfg = failing_config and s = "''NIFTYBEES''"
      and w = world0 and m = "''timeout of 15000ms exceeded''"]
  have a: "fst (fetchIntraday5Min failing_config ''NIFTYBEES'' world0) = Inr None"
    by (rule failing [THEN conjunct2, THEN conjunct2, THEN conjunct2, THEN conjunct2, THEN conjunct1, rule_format]) (rule fnet)
  have b: "fst (fetchDailyPrevClose failing_config ''NIFTYBEES'' world0) = Inr None"
    by (rule failing [THEN conjunct2, THEN conjunct2, THEN conjunct1, rule_format]) (rule fnet)
  have c: "fst (fetchQuote failing_config ''NIFTYBEES'' world0) =
      Inl (AxiosError ''timeout of 15000ms exceeded'')"
    by (rule failing [THEN conjunct2, THEN conjunct2, THEN conjunct2, THEN conjunct2, THEN conjunct2, THEN conjunct2, THEN conjunct2, THEN conjunct1, rule_format]) (rule fnet)
  have nnet: "net ?noquote tr rq = Replied limit_note" for tr rq
    by simp
  have nq: "\<not> truthy (optGet limit_note ''Global Quote'')"
    "\<not> truthy (optGet limit_note ''Time Series (5min)'')"
    "\<not> truthy (optGet limit_note ''Time Series (Daily)'')"
    by (simp_all add: limit_note_def optGet_def getProp_def index_of_key_def truthy_def)
  note noquote = fetchQuote_failure_policy [where cfg = ?noquote and s = "''NIFTYBEES''"
      and w = world0 and data = limit_note]
  have d: "fst (fetchDailyPrevClose ?noquote ''NIFTYBEES'' world0) = Inr None"
    by (rule noquote [THEN conjunct2, THEN conjunct2, THEN conjunct2, THEN conjunct1, rule_format]) (simp only: nnet nq simp_thms)
  have fb: "net ?noquote (trace world0) (primary_request ?noquote ''NIFTYBEES'') = Replied limit_note \<and>
      (\<not> truthy (optGet limit_note ''Global Quote'') \<or>
       primary_fields (optGet limit_note ''Global Quote'') = Inr None)"
    by (simp only: nnet nq simp_thms)
  have fb2: "(\<exists>m'. net ?noquote (trace (after world0 (primary_request ?noquote ''NIFTYBEES'')))
                (intraday_request ?noquote ''NIFTYBEES'') = Failed m') \<or>
       (\<exists>d2. net ?noquote (trace (after world0 (primary_request ?noquote ''NIFTYBEES'')))
                (intraday_request ?noquote ''NIFTYBEES'') = Replied d2 \<and>
          \<not> truthy (optGet d2 ''Time Series (5min)'')) \<or>
       fst (fetchDailyPrevClose ?noquote ''NIFTYBEES''
              (after (after world0 (primary_request ?noquote ''NIFTYBEES''))
                 (intraday_request ?noquote ''NIFTYBEES''))) = Inr None"
    using nnet nq by blast
  have e: "fst (fetchQuote ?noquote ''NIFTYBEES'' world0) = Inr None"
    by (rule noquote [THEN conjunct2, THEN conjunct2, THEN conjunct2, THEN conjunct2, THEN conjunct2, THEN conjunct2, THEN conjunct2, THEN conjunct2, THEN conjunct2, THEN conjunct2, THEN conjunct1, rule_format, OF fb, THEN conjunct2, rule_format, OF fb2])
  have hnet: "net hostile_config (trace world0) (primary_request hostile_config ''NIFTYBEES'') =
      Replied (VObj [(''Global Quote'',
               VObj [(''05. price'', VObj [(''toString'', VNum (Fin 1))]),
                     (''08. previous close'', VStr ''100.0000'')])])"
    by (simp add: hostile_config_def)
  have hpf: "primary_fields (optGet (VObj [(''Global Quote'',
               VObj [(''05. price'', VObj [(''toString'', VNum (Fin 1))]),
                     (''08. previous close'', VStr ''100.0000'')])]) ''Global Quote'') =
      Inr (Some (VObj [(''toString'', VNum (Fin 1))], VStr ''100.0000''))"
    by code_simp
  have hnum: "ToNumber (VObj [(''toString'', VNum (Fin 1))]) = Inl TypeError"
    by code_simp
  have f: "fst (fetchQuote hostile_config ''NIFTYBEES'' world0) = Inl TypeError"
    by (rule fetchQuote_failure_policy [where cfg = hostile_config and s = "''NIFTYBEES''"
      and w = world0 and p = "VObj [(''toString'', VNum (Fin 1))]" and c = "VStr ''100.0000''"
      and e = TypeError and data = "VObj [(''Global Quote'',
               VObj [(''05. price'', VObj [(''toString'', VNum (Fin 1))]),
                     (''08. previous close'', VStr ''100.0000'')])]", THEN conjunct2, THEN conjunct2, THEN conjunct2, THEN conjunct2, THEN conjunct2, THEN conjunct2, THEN conjunct2, THEN conjunct2, THEN conjunct1, rule_format])
      (simp only: hnet hpf hnum simp_thms)
  let ?w1 = "after world0 (primary_request no_daily_config ''NIFTYBEES'')"
  let ?w2 = "after ?w1 (intraday_request no_daily_config ''NIFTYBEES'')"
  have dnet0: "net no_daily_config (trace world0) (primary_request no_daily_config ''NIFTYBEES'') =
      Replied limit_note"
    by (simp add: no_daily_config_def world0_def)
  have dnet2: "net no_daily_config (trace ?w2) (daily_request no_daily_config ''NIFTYBEES'') =
      Failed ''Network Error''"
    by (simp add: no_daily_config_def world0_def after_def)
  have dnull: "fst (fetchDailyPrevClose no_daily_config ''NIFTYBEES'' ?w2) = Inr None"
    by (rule fetchQuote_failure_policy [where cfg = no_daily_config and s = "''NIFTYBEES''"
      and w = ?w2 and m = "''Network Error''", THEN conjunct2, THEN conjunct2, THEN conjunct1, rule_format]) (rule dnet2)
  have dfb: "net no_daily_config (trace world0) (primary_request no_daily_config ''NIFTYBEES'') =
      Replied limit_note \<and>
      (\<not> truthy (optGet limit_note ''Global Quote'') \<or>
       primary_fields (optGet limit_note ''Global Quote'') = Inr None)"
    by (simp only: dnet0 nq simp_thms)
  have dfb2: "(\<exists>m'. net no_daily_config (trace ?w1)
                (intraday_request no_daily_config ''NIFTYBEES'') = Failed m') \<or>
       (\<exists>d2. net no_daily_config (trace ?w1)
                (intraday_request no_daily_config ''NIFTYBEES'') = Replied d2 \<and>
          \<not> truthy (optGet d2 ''Time Series (5min)'')) \<or>
       fst (fetchDailyPrevClose no_daily_config ''NIFTYBEES'' ?w2) = Inr None"
    using dnull by blast
  have g: "fst (fetchQuote no_daily_config ''NIFTYBEES'' world0) = Inr None"
    by (rule fetchQuote_failure_policy [where cfg = no_daily_config and s = "''NIFTYBEES''"
      and w = world0 and data = limit_note, THEN conjunct2, THEN conjunct2, THEN conjunct2, THEN conjunct2, THEN conjunct2, THEN conjunct2, THEN conjunct2, THEN conjunct2, THEN conjunct2, THEN conjunct2, THEN conjunct1, rule_format, OF dfb, THEN conjunct2,
      rule_format, OF dfb2])
  have knet: "net flaky_config (trace world0) (primary_request flaky_config ''NIFTYBEES'') =
      Failed ''Network Error''"
    by (simp add: flaky_config_def world0_def)
  have kthrow: "fst (fetchQuote flaky_config ''NIFTYBEES'' world0) = Inl (AxiosError ''Network Error'')"
    by (rule fetchQuote_failure_policy [where cfg = flaky_config and s = "''NIFTYBEES''"
      and w = world0 and m = "''Network Error''", THEN conjunct2, THEN conjunct2, THEN conjunct2, THEN conjunct2, THEN conjunct2, THEN conjunct2, THEN conjunct2, THEN conjunct1, rule_format]) (rule knet)
  have kcase: "(\<exists>e. fst (fetchQuote flaky_config ''NIFTYBEES'' world0) = Inl e) \<or>
      fst (fetchQuote flaky_config ''NIFTYBEES'' world0) = Inr None \<or>
      (\<exists>q. fst (fetchQuote flaky_config ''NIFTYBEES'' world0) = Inr (Some q) \<and>
           pctChange (price q) (prevClose q) = None)"
    using kthrow by blast
  have kr: "fetchQuote flaky_config ''NIFTYBEES'' world0 =
      fetchQuote flaky_config (item.symbol (hd WATCHLIST))
        (if 0 < (0::nat) then world0\<lparr>trace := trace world0 @ [Delay 1300]\<rparr> else world0)"
    by (simp only: sym less_irrefl if_False)
  note kscan = fetchQuote_failure_policy [where cfg = flaky_config and w = world0
      and it = "hd WATCHLIST" and i = 0 and r = "fetchQuote flaky_config ''NIFTYBEES'' world0"
      and n = ConsoleNotifier and skip = False and t = ?t and ds = "[]" and rest = "tl WATCHLIST",
      THEN conjunct2, THEN conjunct2, THEN conjunct2, THEN conjunct2, THEN conjunct2, THEN conjunct2, THEN conjunct2, THEN conjunct2, THEN conjunct2, THEN conjunct2, THEN conjunct2, rule_format, OF kcase kr, THEN conjunct2]
  have h: "scan_loop flaky_config ConsoleNotifier False ?t 0 WATCHLIST ([], world0) =
      scan_loop flaky_config ConsoleNotifier False ?t 1 (tl WATCHLIST)
        ([], snd (fetchQuote flaky_config ''NIFTYBEES'' world0))"
    using kscan wl by (simp only: One_nat_def)
  have i: "map (\<lambda>d. optGet d ''symbol'')
     (dips (fst (checkWatchlist flaky_config ConsoleNotifier False 1793593800000 world0))) =
     [VStr ''JUNIORBEES'']"
    by code_simp
  have mq: "fst (fetchQuote malformed_config ''NIFTYBEES'' world0) =
     Inr (Some \<lparr>quote.symbol = ''NIFTYBEES'', price = NaN, prevClose = Fin 100,
                source = ''INTRADAY+DAILY''\<rparr>)"
    by code_simp
  have mp: "pctChange NaN (Fin 100) = None"
    by (simp add: pctChange_def isFinite_def)
  have mcase: "(\<exists>e. fst (fetchQuote malformed_config ''NIFTYBEES'' world0) = Inl e) \<or>
      fst (fetchQuote malformed_config ''NIFTYBEES'' world0) = Inr None \<or>
      (\<exists>q. fst (fetchQuote malformed_config ''NIFTYBEES'' world0) = Inr (Some q) \<and>
           pctChange (price q) (prevClose q) = None)"
    using mq mp by simp
  have mr: "fetchQuote malformed_config ''NIFTYBEES'' world0 =
      fetchQuote malformed_config (item.symbol (hd WATCHLIST))
        (if 0 < (0::nat) then world0\<lparr>trace := trace world0 @ [Delay 1300]\<rparr> else world0)"
    by (simp only: sym less_irrefl if_False)
  note mscan = fetchQuote_failure_policy [where cfg = malformed_config and w = world0
      and it = "hd WATCHLIST" and i = 0 and r = "fetchQuote malformed_config ''NIFTYBEES'' world0"
      and n = ConsoleNotifier and skip = False and t = ?t and ds = "[]",
      THEN conjunct2, THEN conjunct2, THEN conjunct2, THEN conjunct2, THEN conjunct2, THEN conjunct2, THEN conjunct2, THEN conjunct2, THEN conjunct2, THEN conjunct2, THEN conjunct2, rule_format, OF mcase mr, THEN conjunct1]
  have j: "fst (scan_item malformed_config ConsoleNotifier False ?t 0 (hd WATCHLIST) ([], world0)) = []"
    by (simp only: mscan fst_conv)
  from a b c d e f g h i j show ?thesis
    by (intro conjI)
qed

section \<open>Values of the quote\<close>

text \<open>
  C7 as stated fails: the provider's price "0.0000" yields a Quote whose price is 0, and a
  price "n/a" with previous close "-100.0000" yields a Quote whose price is NaN and whose
  previous close is negative.
\<close>

theorem fetchQuote_quote_not_positive:
  "fst (fetchQuote zero_price_config ''NIFTYBEES'' world0) =
     Inr (Some \<lparr>quote.symbol = ''NIFTYBEES'', price = Fin 0, prevClose = Fin 100,
                source = ''GLOBAL_QUOTE''\<rparr>) \<and>
   fst (fetchQuote garbled_config ''NIFTYBEES'' world0) =
     Inr (Some \<lparr>quote.symbol = ''NIFTYBEES'', price = NaN, prevClose = Fin (- 100),
                source = ''GLOBAL_QUOTE''\<rparr>)"
  by code_simp

text \<open>
  C7 (as the code has it). A Quote returned by \<open>fetchQuote\<close> carries the requested symbol
  and the source GLOBAL_QUOTE or INTRADAY+DAILY. On the primary path its price and prevClose
  are \<open>Number\<close> of the fields "05. price" and "08. previous close" of the reply, both of
  which are truthy; nothing makes them positive or finite. Only a quote with finite price
  and finite, non-zero prevClose has a percent change, so every DipRecord of a scan has
  such a price and prevClose.
\<close>

theorem fetchQuote_quote_spec:
  "(fst (fetchQuote cfg s w) = Inr (Some q) \<longrightarrow>
      quote.symbol q = s \<and> (source q = ''GLOBAL_QUOTE'' \<or> source q = ''INTRADAY+DAILY'') \<and>
      (source q = ''GLOBAL_QUOTE'' \<longrightarrow>
         (\<exists>data p c. net cfg (trace w) (HttpGet (query_url cfg ''GLOBAL_QUOTE'' s []) 15000) = Replied data \<and>
            getProp (optGet data ''Global Quote'') ''05. price'' = Inr p \<and>
            getProp (optGet data ''Global Quote'') ''08. previous close'' = Inr c \<and>
            truthy p \<and> truthy c \<and>
            ToNumber p = Inr (price q) \<and> ToNumber c = Inr (prevClose q)))) \<and>
   (\<forall>d \<in> set (dips (fst (checkWatchlist cfg n skip now w))).
      \<exists>p c. optGet d ''price'' = VNum p \<and> optGet d ''prevClose'' = VNum c \<and>
        isFinite p \<and> isFinite c \<and> c \<noteq> Fin 0)"
proof (intro conjI impI ballI)
  fix d
  assume "d \<in> set (dips (fst (checkWatchlist cfg n skip now w)))"
  with checkWatchlist_dips obtain it q' ch tg
    where d: "d = dip_record it q' ch (setZoneKolkata now) tg"
      and ch: "pctChange (price q') (prevClose q') = Some ch"
    unfolding dip_at_def by blast
  have "optGet d ''price'' = VNum (price q')" "optGet d ''prevClose'' = VNum (prevClose q')"
    by (simp_all add: d dip_record_def optGet_def getProp_def)
  with pctChange_Some_finite [OF ch]
  show "\<exists>p c. optGet d ''price'' = VNum p \<and> optGet d ''prevClose'' = VNum c \<and>
        isFinite p \<and> isFinite c \<and> c \<noteq> Fin 0"
    by blast
qed (use fetchQuote_Some [of cfg s w q] in blast)+

theorem fetchQuote_quote_spec_witness:
  "fst (fetchQuote demo_config ''NIFTYBEES'' world0) =
     Inr (Some \<lparr>quote.symbol = ''NIFTYBEES'', price = Fin (6917247552664371 / 70368744177664),
                prevClose = Fin 100, source = ''GLOBAL_QUOTE''\<rparr>) \<and>
   (\<exists>data p c. net demo_config (trace world0)
        (HttpGet (query_url demo_config ''GLOBAL_QUOTE'' ''NIFTYBEES'' []) 15000) = Replied data \<and>
      getProp (optGet data ''Global Quote'') ''05. price'' = Inr p \<and>
      getProp (optGet data ''Global Quote'') ''08. previous close'' = Inr c \<and>
      truthy p \<and> truthy c \<and>
      ToNumber p = Inr (Fin (6917247552664371 / 70368744177664)) \<and> ToNumber c = Inr (Fin 100))"
proof -
  let ?q = "\<lparr>quote.symbol = ''NIFTYBEES'', price = Fin (6917247552664371 / 70368744177664),
             prevClose = Fin 100, source = ''GLOBAL_QUOTE''\<rparr>"
  have f: "fst (fetchQuote demo_config ''NIFTYBEES'' world0) = Inr (Some ?q)"
    by code_simp
  from fetchQuote_quote_spec [of demo_config "''NIFTYBEES''" world0 ?q] f
  show ?thesis by simp
qed

section \<open>Printing with two decimals and reading back\<close>

lemma of_char_digit_char: "0 \<le> d \<Longrightarrow> d < 10 \<Longrightarrow> (of_char (digit_char d) :: int) = 48 + d"
  by (simp add: digit_char_def of_char_of)

lemma is_digit_digit_char: "0 \<le> d \<Longrightarrow> d < 10 \<Longrightarrow> is_digit (digit_char d)"
  by (simp add: is_digit_def of_char_digit_char)

lemma digit_of_digit_char: "0 \<le> d \<Longrightarrow> d < 10 \<Longrightarrow> digit_of 10 (digit_char d) = Some d"
  by (simp add: digit_of_def of_char_digit_char Let_def)

lemma decimal_digits: "0 \<le> n \<Longrightarrow> (\<forall>c \<in> set (decimal n). is_digit c) \<and> decimal n \<noteq> []"
proof (induction n rule: decimal.induct)
  case (1 n)
  show ?case
  proof (cases "n < 10")
    case True
    with "1.prems" show ?thesis
      by (simp add: decimal.simps [of n] is_digit_digit_char)
  next
    case False
    with "1.prems" have "0 \<le> n div 10" "0 \<le> n mod 10" "n mod 10 < 10"
      by simp_all
    with "1.IH" False show ?thesis
      by (simp add: decimal.simps [of n] is_digit_digit_char)
  qed
qed

lemma digits_to_int_append:
  "digits_to_int r acc (xs @ ys) =
     (case digits_to_int r acc xs of None \<Rightarrow> None | Some v \<Rightarrow> digits_to_int r v ys)"
  by (induction xs arbitrary: acc) (auto split: option.splits)

lemma digits_to_int_decimal:
  "0 \<le> n \<Longrightarrow> digits_to_int 10 acc (decimal n) = Some (acc * 10 ^ length (decimal n) + n)"
proof (induction n arbitrary: acc rule: decimal.induct)
  case (1 n)
  show ?case
  proof (cases "n < 10")
    case True
    with "1.prems" show ?thesis
      by (simp add: decimal.simps [of n] digit_of_digit_char)
  next
    case False
    with "1.prems" have d: "0 \<le> n div 10" "0 \<le> n mod 10" "n mod 10 < 10"
      by simp_all
    have "digits_to_int 10 acc (decimal n) =
        digits_to_int 10 acc (decimal (n div 10) @ [digit_char (n mod 10)])"
      using False by (simp add: decimal.simps [of n])
    also have "\<dots> = Some ((acc * 10 ^ length (decimal (n div 10)) + n div 10) * 10 + n mod 10)"
      using "1.IH" [OF False d(1)] d by (simp add: digits_to_int_append digit_of_digit_char)
    also have "(acc * 10 ^ length (decimal (n div 10)) + n div 10) * 10 + n mod 10 =
        acc * 10 ^ length (decimal n) + n"
      using False by (simp add: decimal.simps [of n] algebra_simps)
    finally show ?thesis .
  qed
qed

lemma digit_of_zero: "digit_of 10 CHR ''0'' = Some 0"
  by (simp add: digit_of_def)

lemma is_digit_zero: "is_digit CHR ''0''"
  by (simp add: is_digit_def)

lemma digits_to_int_zeros:
  "digits_to_int 10 0 (replicate j CHR ''0'' @ ds) = digits_to_int 10 0 ds"
  by (induction j) (simp_all add: digit_of_zero)

lemma skip_ws_id:
  assumes "(of_char c :: int) \<notin> {9, 10, 11, 12, 13, 32, 0xC2, 0xE1, 0xE2, 0xE3, 0xEF}"
  shows "skip_ws (c # cs) = c # cs"
proof -
  from assms have "\<not> ws1 c" "\<not> ws2 c d" "\<not> ws3 c d e" for d e
    by (auto simp: ws1_def ws2_def ws3_def Let_def)
  then show ?thesis
    by (cases "c # cs" rule: skip_ws.cases) simp_all
qed

lemma skip_ws_rev_id:
  assumes "is_digit c"
  shows "skip_ws_rev (c # cs) = c # cs"
proof -
  from assms have "\<not> ws1 c" "\<not> ws2 d c" "\<not> ws3 e d c" for d e
    by (auto simp: ws1_def ws2_def ws3_def is_digit_def Let_def)
  then show ?thesis
    by (cases "c # cs" rule: skip_ws_rev.cases) simp_all
qed

lemma trim_ws_id:
  assumes "s \<noteq> []"
    and "(of_char (hd s) :: int) \<notin> {9, 10, 11, 12, 13, 32, 0xC2, 0xE1, 0xE2, 0xE3, 0xEF}"
    and "is_digit (last s)"
  shows "trim_ws s = s"
proof -
  from assms(1,2) have "skip_ws s = s"
    by (cases s) (simp_all add: skip_ws_id)
  moreover from assms(1,3) have "skip_ws_rev (rev s) = rev s"
    by (cases "rev s") (simp_all add: skip_ws_rev_id last_rev [symmetric] hd_rev)
  ultimately show ?thesis
    by (simp add: trim_ws_def)
qed

lemma parse_unsigned_decimal_fixed:
  assumes "ip \<noteq> []" "\<forall>c \<in> set ip. is_digit c" "\<forall>c \<in> set fp. is_digit c"
    and "digits_to_int 10 0 (ip @ fp) = Some n"
  shows "parse_unsigned_decimal neg (ip @ ''.'' @ fp) = LitDec neg n (- int (length fp))"
proof -
  have nd: "\<not> is_digit CHR ''.''" "\<not> is_digit CHR ''I''"
    by (simp_all add: is_digit_def)
  from assms(1,2) nd(2) have ninf: "ip @ ''.'' @ fp \<noteq> ''Infinity''"
    by (cases ip) auto
  from assms(2) nd(1) have tw: "takeWhile is_digit (ip @ CHR ''.'' # fp) = ip"
    by (simp add: takeWhile_append2)
  from assms(2) nd(1) have dw: "dropWhile is_digit (ip @ CHR ''.'' # fp) = CHR ''.'' # fp"
    by (simp add: dropWhile_append2)
  from assms(3) have fw: "takeWhile is_digit fp = fp" "dropWhile is_digit fp = []"
    by simp_all
  show ?thesis
    unfolding parse_unsigned_decimal_def
    using ninf assms(1,4) by (simp add: tw dw fw Let_def parse_exponent_def)
qed

lemma parse_literal_minus:
  assumes "trim_ws str = CHR ''-'' # t"
  shows "parse_StringNumericLiteral str = parse_unsigned_decimal True t"
  using assms by (simp add: parse_StringNumericLiteral_def Let_def)

lemma parse_literal_digit:
  assumes "trim_ws str = c # x # ds" and "is_digit c" and "x = CHR ''.'' \<or> is_digit x"
  shows "parse_StringNumericLiteral str = parse_unsigned_decimal False (c # x # ds)"
proof -
  from assms(2) have c: "c \<noteq> CHR ''-''" "c \<noteq> CHR ''+''"
    by (auto simp: is_digit_def)
  from assms(3) have x: "x \<noteq> CHR ''x''" "x \<noteq> CHR ''X''" "x \<noteq> CHR ''o''" "x \<noteq> CHR ''O''"
    "x \<noteq> CHR ''b''" "x \<noteq> CHR ''B''"
    by (auto simp: is_digit_def)
  show ?thesis
  proof (cases "c = CHR ''0''")
    case True
    with assms(1) x show ?thesis
      by (simp add: parse_StringNumericLiteral_def Let_def)
  next
    case False
    with assms(1) c show ?thesis
      by (simp add: parse_StringNumericLiteral_def Let_def)
  qed
qed

lemma parse_fixed:
  assumes "ip \<noteq> []" "\<forall>c \<in> set ip. is_digit c" "\<forall>c \<in> set fp. is_digit c" "fp \<noteq> []"
    and "digits_to_int 10 0 (ip @ fp) = Some n"
  shows "parse_StringNumericLiteral ((if neg then ''-'' else []) @ ip @ ''.'' @ fp) =
    LitDec neg n (- int (length fp))"
proof -
  let ?u = "ip @ ''.'' @ fp"
  let ?s = "(if neg then ''-'' else []) @ ?u"
  obtain c t where ip: "ip = c # t" using assms(1) by (cases ip) auto
  with assms(2) have c: "is_digit c" by simp
  then have cr: "(of_char c :: int) \<notin> {9, 10, 11, 12, 13, 32, 0xC2, 0xE1, 0xE2, 0xE3, 0xEF}"
    by (auto simp: is_digit_def)
  from assms(3,4) have lastd: "is_digit (last ?s)"
    by simp
  have hd_ok: "(of_char (hd ?s) :: int) \<notin> {9, 10, 11, 12, 13, 32, 0xC2, 0xE1, 0xE2, 0xE3, 0xEF}"
    using cr by (simp add: ip)
  have trim: "trim_ws ?s = ?s"
    by (rule trim_ws_id) (use hd_ok lastd in simp_all)
  have pud: "parse_unsigned_decimal neg ?u = LitDec neg n (- int (length fp))"
    by (rule parse_unsigned_decimal_fixed) (use assms in simp_all)
  show ?thesis
  proof (cases neg)
    case True
    with trim have "trim_ws ?s = CHR ''-'' # ?u" by simp
    from parse_literal_minus [OF this] pud True show ?thesis by simp
  next
    case False
    obtain x ds where xds: "t @ ''.'' @ fp = x # ds"
      by (cases "t @ ''.'' @ fp") auto
    then have x: "x = CHR ''.'' \<or> is_digit x"
      using assms(2) ip by (cases t) auto
    from False trim xds have "trim_ws ?s = c # x # ds" by (simp add: ip)
    from parse_literal_digit [OF this c x] have
      "parse_StringNumericLiteral ?s = parse_unsigned_decimal False (c # x # ds)" .
    also have "c # x # ds = ?u" using xds by (simp add: ip)
    finally show ?thesis using pud False by simp
  qed
qed

lemma ipow_10_minus_2: "ipow 10 (- 2) = 1 / 100"
  by (simp add: ipow_def Fract_of_int_quotient)

lemma decimal_0: "decimal 0 = ''0''"
  by code_simp

lemma Number_toFixed_2:
  assumes "\<bar>q\<bar> < 10 ^ 21"
  shows "StringToNumber (toFixed (Fin q) 2) =
    round64 ((if q < 0 then - 1 else 1) * of_int \<lfloor>\<bar>q\<bar> * 100 + 1 / 2\<rfloor> / 100)"
proof -
  define n where "n = \<lfloor>\<bar>q\<bar> * 100 + 1 / 2\<rfloor>"
  define m where "m = decimal n"
  define z where "z = (if length m \<le> 2 then replicate (3 - length m) CHR ''0'' @ m else m)"
  define ip where "ip = take (length z - 2) z"
  define fp where "fp = drop (length z - 2) z"
  have n0: "0 \<le> n"
    unfolding n_def by (simp add: floor_le_iff le_floor_iff)
  from decimal_digits [OF n0] have md: "\<forall>c \<in> set m. is_digit c" "m \<noteq> []"
    by (simp_all add: m_def)
  have mval: "digits_to_int 10 0 m = Some n"
    using digits_to_int_decimal [OF n0, of 0] by (simp add: m_def)
  have zd: "\<forall>c \<in> set z. is_digit c"
    using md(1) by (auto simp: z_def is_digit_zero)
  have zlen: "3 \<le> length z"
    by (auto simp: z_def)
  have zval: "digits_to_int 10 0 z = Some n"
    using mval by (simp add: z_def digits_to_int_zeros)
  have parts: "ip @ fp = z" "length fp = 2" "ip \<noteq> []" "fp \<noteq> []"
    using zlen by (auto simp: ip_def fp_def)
  have ds: "\<forall>c \<in> set ip. is_digit c" "\<forall>c \<in> set fp. is_digit c"
    using zd by (auto simp: ip_def fp_def dest: in_set_takeD in_set_dropD)
  have m_alt: "(if n = 0 then ''0'' else decimal n) = m"
    by (simp add: m_def decimal_0)
  have unfolded: "toFixed (Fin q) 2 =
      (if q < 0 then ''-'' else []) @
      take (length (if length m \<le> 2 then replicate (3 - length m) CHR ''0'' @ m else m) - 2)
        (if length m \<le> 2 then replicate (3 - length m) CHR ''0'' @ m else m) @ ''.'' @
      drop (length (if length m \<le> 2 then replicate (3 - length m) CHR ''0'' @ m else m) - 2)
        (if length m \<le> 2 then replicate (3 - length m) CHR ''0'' @ m else m)"
    using assms m_alt unfolding toFixed_def n_def [symmetric]
    by (simp add: Let_def n_def [symmetric] del: replicate.simps take_append drop_append
        cong: if_cong)
  have tf: "toFixed (Fin q) 2 = (if q < 0 then ''-'' else []) @ ip @ ''.'' @ fp"
    unfolding unfolded ip_def fp_def z_def ..
  have "parse_StringNumericLiteral (toFixed (Fin q) 2) = LitDec (q < 0) n (- 2)"
    unfolding tf using parse_fixed [of ip fp n "q < 0"] parts ds zval by simp
  then show ?thesis
    by (simp add: StringToNumber_def numlit_value_def ipow_10_minus_2 n_def)
qed

lemma Number_toFixed_2_infinite:
  "StringToNumber (toFixed NInf 2) = NInf"
  by code_simp

section \<open>The trace only grows\<close>

lemma grows_refl: "grows w w"
  by (simp add: grows_def)

lemma grows_trans: "grows a b \<Longrightarrow> grows b c \<Longrightarrow> grows a c"
  by (auto simp: grows_def)

lemma grows_event: "grows w (w\<lparr>trace := trace w @ [ev]\<rparr>)"
  by (simp add: grows_def)

lemma axios_grows: "grows w (snd (axios cfg rq w))"
  by (auto simp: axios_def grows_def Let_def split: response.splits)

lemma axios_world: "snd (axios cfg rq w) = w\<lparr>trace := trace w @ [Request rq]\<rparr>"
  by (auto simp: axios_def Let_def split: response.splits)

lemma catch_null_snd: "snd (catch_null x) = snd x"
  by (cases x) (auto simp: catch_null_def split: sum.splits)

lemma fetchDailyPrevClose_world:
  "snd (fetchDailyPrevClose cfg s w) =
     w\<lparr>trace := trace w @ [Request (HttpGet
        (query_url cfg ''TIME_SERIES_DAILY_ADJUSTED'' s ''&outputsize=compact'') 20000)]\<rparr>"
  by (auto simp: fetchDailyPrevClose_def catch_null_snd axios_def Let_def
      split: response.splits)

lemma fetchDailyPrevClose_grows: "grows w (snd (fetchDailyPrevClose cfg s w))"
  by (simp add: fetchDailyPrevClose_world grows_event)

lemma fetchIntraday5Min_grows: "grows w (snd (fetchIntraday5Min cfg s w))"
proof -
  let ?w1 = "w\<lparr>trace := trace w @ [Request (HttpGet
        (query_url cfg ''TIME_SERIES_INTRADAY'' s ''&interval=5min&outputsize=compact'') 20000)]\<rparr>"
  have "snd (fetchIntraday5Min cfg s w) = ?w1 \<or>
      snd (fetchIntraday5Min cfg s w) = snd (fetchDailyPrevClose cfg s ?w1)"
    by (auto simp: fetchIntraday5Min_def catch_null_snd axios_def Let_def
        split: response.splits sum.splits prod.splits option.splits)
  moreover have "grows w ?w1" by (rule grows_event)
  moreover have "grows ?w1 (snd (fetchDailyPrevClose cfg s ?w1))"
    by (rule fetchDailyPrevClose_grows)
  ultimately show ?thesis
    by (auto intro: grows_trans)
qed

lemma fetchQuote_grows: "grows w (snd (fetchQuote cfg s w))"
proof -
  let ?w1 = "w\<lparr>trace := trace w @ [Request (HttpGet (query_url cfg ''GLOBAL_QUOTE'' s []) 15000)]\<rparr>"
  have "snd (fetchQuote cfg s w) = ?w1 \<or>
      snd (fetchQuote cfg s w) = snd (fetchIntraday5Min cfg s ?w1)"
    by (auto simp: fetchQuote_def axios_def Let_def
        split: response.splits sum.splits prod.splits option.splits)
  moreover have "grows w ?w1" by (rule grows_event)
  moreover have "grows ?w1 (snd (fetchIntraday5Min cfg s ?w1))"
    by (rule fetchIntraday5Min_grows)
  ultimately show ?thesis
    by (auto intro: grows_trans)
qed

lemma notify_grows: "grows w (snd (notify cfg n msg w))"
  by (cases n)
    (auto simp: notify_def console_log_def grows_def axios_def Let_def
      split: response.splits prod.splits sum.splits)

lemma deliver_grows: "grows w (snd (deliver cfg n skip msg w))"
proof (cases skip)
  case True
  then show ?thesis by (simp add: deliver_def grows_refl)
next
  case False
  obtain r w1 where n1: "notify cfg n msg w = (r, w1)" by (cases "notify cfg n msg w")
  from notify_grows [of w cfg n msg] n1 have g1: "grows w w1" by simp
  show ?thesis
  proof (cases "present (TG_BOT_TOKEN cfg) \<and> present (TG_CHAT_ID cfg)")
    case True
    with False n1 have "snd (deliver cfg n skip msg w) =
        snd (notify cfg (TelegramNotifier (TG_BOT_TOKEN cfg) (TG_CHAT_ID cfg)) msg w1)"
      by (simp add: deliver_def)
    with g1 notify_grows [of w1 cfg] show ?thesis
      by (auto intro: grows_trans)
  next
    case no: False
    with False n1 have "snd (deliver cfg n skip msg w) = w1"
      by (auto simp: deliver_def)
    with g1 show ?thesis by simp
  qed
qed

lemma deliver_console_logs:
  assumes "\<not> skip"
  shows "ConsoleLog ''[ALERT]'' msg \<in> set (trace (snd (deliver cfg ConsoleNotifier skip msg w)))"
proof -
  let ?w1 = "w\<lparr>trace := trace w @ [ConsoleLog ''[ALERT]'' msg]\<rparr>"
  have n1: "notify cfg ConsoleNotifier msg w = (VUndefined, ?w1)"
    by (simp add: notify_def console_log_def)
  have "grows ?w1 (snd (deliver cfg ConsoleNotifier skip msg w))"
  proof (cases "present (TG_BOT_TOKEN cfg) \<and> present (TG_CHAT_ID cfg)")
    case True
    with assms n1 have "snd (deliver cfg ConsoleNotifier skip msg w) =
        snd (notify cfg (TelegramNotifier (TG_BOT_TOKEN cfg) (TG_CHAT_ID cfg)) msg ?w1)"
      by (simp add: deliver_def)
    with notify_grows [of ?w1 cfg] show ?thesis by simp
  next
    case False
    with assms n1 have "snd (deliver cfg ConsoleNotifier skip msg w) = ?w1"
      by (auto simp: deliver_def)
    then show ?thesis by (simp add: grows_refl)
  qed
  then show ?thesis
    by (auto simp: grows_def)
qed

lemma grows_mem: "grows w w' \<Longrightarrow> ev \<in> set (trace w) \<Longrightarrow> ev \<in> set (trace w')"
  by (auto simp: grows_def)

section \<open>Every dip record comes from a fetched quote\<close>

lemma scan_item_result:
  assumes "scan_item cfg n skip t i it (ds, w) = (ds', w')"
  shows "grows w w' \<and>
    (ds' = ds \<or>
     (\<exists>q ch tg w0 w1. grows w w0 \<and>
        fetchQuote cfg (item.symbol it) w0 = (Inr (Some q), w1) \<and>
        pctChange (price q) (prevClose q) = Some ch \<and> js_le ch THRESHOLD_PCT \<and>
        deliver cfg n skip (alert_message it q ch t) w1 = (tg, w') \<and>
        ds' = ds @ [dip_record it q ch t tg]))"
proof -
  let ?w0 = "if 0 < i then w\<lparr>trace := trace w @ [Delay 1300]\<rparr> else w"
  have g0: "grows w ?w0"
    by (simp add: grows_refl grows_event)
  obtain r w1 where f: "fetchQuote cfg (item.symbol it) ?w0 = (r, w1)"
    by (cases "fetchQuote cfg (item.symbol it) ?w0")
  from fetchQuote_grows [of ?w0 cfg "item.symbol it"] f have g1: "grows ?w0 w1"
    by simp
  have unfold: "scan_item cfg n skip t i it (ds, w) =
      (case r of
         Inl e \<Rightarrow> (ds, w1)
       | Inr None \<Rightarrow> (ds, w1)
       | Inr (Some q) \<Rightarrow>
           (case pctChange (price q) (prevClose q) of
              None \<Rightarrow> (ds, w1)
            | Some change \<Rightarrow>
                if js_le change THRESHOLD_PCT then
                  (let msg = alert_message it q change t;
                       (telegramResponse, w2) = deliver cfg n skip msg w1
                   in (ds @ [dip_record it q change t telegramResponse], w2))
                else (ds, w1)))"
    using f by (simp add: scan_item_def Let_def)
  show ?thesis
  proof (cases "\<exists>q ch. r = Inr (Some q) \<and> pctChange (price q) (prevClose q) = Some ch \<and>
      js_le ch THRESHOLD_PCT")
    case False
    with assms unfold have "ds' = ds" "w' = w1"
      by (auto split: sum.splits option.splits if_splits)
    with g0 g1 show ?thesis
      by (auto intro: grows_trans)
  next
    case True
    then obtain q ch where r: "r = Inr (Some q)"
      and ch: "pctChange (price q) (prevClose q) = Some ch" "js_le ch THRESHOLD_PCT"
      by blast
    obtain tg w2 where d: "deliver cfg n skip (alert_message it q ch t) w1 = (tg, w2)"
      by (cases "deliver cfg n skip (alert_message it q ch t) w1")
    from assms unfold r ch d have res: "ds' = ds @ [dip_record it q ch t tg]" "w' = w2"
      by (simp_all add: Let_def)
    from deliver_grows [of w1 cfg n skip "alert_message it q ch t"] d have "grows w1 w2"
      by simp
    with g0 g1 res have "grows w w'"
      by (auto intro: grows_trans)
    moreover from f r have "fetchQuote cfg (item.symbol it) ?w0 = (Inr (Some q), w1)"
      by simp
    ultimately show ?thesis
      using g0 ch d res by blast
  qed
qed

lemma dip_from_grows:
  "dip_from cfg n skip t its ws wend d \<Longrightarrow> grows wend wend' \<Longrightarrow> dip_from cfg n skip t its ws wend' d"
  unfolding dip_from_def by (blast intro: grows_trans)

lemma scan_loop_result:
  assumes "scan_loop cfg n skip t i its (ds, w) = (ds', w')"
    and "set its \<subseteq> set watch" and "grows ws w"
    and "\<forall>d \<in> set ds. dip_from cfg n skip t watch ws w d"
  shows "grows ws w' \<and> (\<forall>d \<in> set ds'. dip_from cfg n skip t watch ws w' d)"
  using assms
proof (induction its arbitrary: i ds w)
  case Nil
  then show ?case by simp
next
  case (Cons it rest)
  obtain ds1 w1 where step: "scan_item cfg n skip t i it (ds, w) = (ds1, w1)"
    by (cases "scan_item cfg n skip t i it (ds, w)")
  from Cons.prems(1) step have rest: "scan_loop cfg n skip t (Suc i) rest (ds1, w1) = (ds', w')"
    by simp
  from scan_item_result [OF step] have g: "grows w w1"
    and new: "ds1 = ds \<or>
     (\<exists>q ch tg w0 w1'. grows w w0 \<and>
        fetchQuote cfg (item.symbol it) w0 = (Inr (Some q), w1') \<and>
        pctChange (price q) (prevClose q) = Some ch \<and> js_le ch THRESHOLD_PCT \<and>
        deliver cfg n skip (alert_message it q ch t) w1' = (tg, w1) \<and>
        ds1 = ds @ [dip_record it q ch t tg])"
    by blast+
  from Cons.prems(3) g have gs: "grows ws w1"
    by (rule grows_trans)
  from Cons.prems(4) g have old: "\<forall>d \<in> set ds. dip_from cfg n skip t watch ws w1 d"
    by (blast intro: dip_from_grows)
  from Cons.prems(2) have it: "it \<in> set watch" and sub: "set rest \<subseteq> set watch"
    by auto
  have "\<forall>d \<in> set ds1. dip_from cfg n skip t watch ws w1 d"
  proof (rule disjE [OF new])
    assume "ds1 = ds"
    with old show ?thesis by simp
  next
    assume "\<exists>q ch tg w0 w1'. grows w w0 \<and>
        fetchQuote cfg (item.symbol it) w0 = (Inr (Some q), w1') \<and>
        pctChange (price q) (prevClose q) = Some ch \<and> js_le ch THRESHOLD_PCT \<and>
        deliver cfg n skip (alert_message it q ch t) w1' = (tg, w1) \<and>
        ds1 = ds @ [dip_record it q ch t tg]"
    then obtain q ch tg w0 w1' where a: "grows w w0"
      "fetchQuote cfg (item.symbol it) w0 = (Inr (Some q), w1')"
      "pctChange (price q) (prevClose q) = Some ch" "js_le ch THRESHOLD_PCT"
      "deliver cfg n skip (alert_message it q ch t) w1' = (tg, w1)"
      "ds1 = ds @ [dip_record it q ch t tg]"
      by blast
    from Cons.prems(3) a(1) have "grows ws w0" by (rule grows_trans)
    with it a grows_refl [of w1]
    have "dip_from cfg n skip t watch ws w1 (dip_record it q ch t tg)"
      unfolding dip_from_def by blast
    with old a(6) show ?thesis by simp
  qed
  from Cons.IH [OF rest sub gs this] show ?case .
qed

lemma checkWatchlist_result:
  "\<forall>d \<in> set (dips (fst (checkWatchlist cfg n skip now w))).
     dip_from cfg n skip (setZoneKolkata now) WATCHLIST w (snd (checkWatchlist cfg n skip now w)) d"
proof (cases "isWithinTradingAlertWindow (EARLY_CUTOFF_MINUTES cfg) (setZoneKolkata now)")
  case False
  then show ?thesis by (simp add: checkWatchlist_def)
next
  case True
  obtain ds w1 where loop:
    "scan_loop cfg n skip (setZoneKolkata now) 0 WATCHLIST ([], w) = (ds, w1)"
    by (cases "scan_loop cfg n skip (setZoneKolkata now) 0 WATCHLIST ([], w)")
  from scan_loop_result [OF loop, of WATCHLIST w] grows_refl [of w]
  have r: "\<forall>d \<in> set ds. dip_from cfg n skip (setZoneKolkata now) WATCHLIST w w1 d"
    by simp
  have g: "grows w1 (w1\<lparr>lastDips := map (omit_key ''telegram'') ds\<rparr>)"
    by (simp add: grows_def)
  from True loop have "fst (checkWatchlist cfg n skip now w) = \<lparr>ok = True, message = None, dips = ds\<rparr>"
    "snd (checkWatchlist cfg n skip now w) = w1\<lparr>lastDips := map (omit_key ''telegram'') ds\<rparr>"
    by (simp_all add: checkWatchlist_def)
  with r g show ?thesis
    by (auto intro: dip_from_grows)
qed

section \<open>Properties of the stored percent change\<close>

lemma demo_pctChange:
  "pctChange (Fin (6917247552664371 / 70368744177664)) (Fin 100) =
     Some (Fin (- (119626865102029 / 70368744177664)))"
  by code_simp

text \<open>
  C6 as stated fails. For a price of 98.30 against a previous close of 100.00 the dip
  detector computes -1.7000000000000028 (the binary64 value -119626865102029 / 2^46), and the
  DipRecord stores -1.7 (the binary64 value -7656119366529843 / 2^52): the stored value
  is rounded.
\<close>

theorem stored_change_is_rounded:
  "optGet (hd (dips (fst (checkWatchlist demo_config ConsoleNotifier False 1793593800000 world0)))) ''price'' =
     VNum (Fin (6917247552664371 / 70368744177664)) \<and>
   optGet (hd (dips (fst (checkWatchlist demo_config ConsoleNotifier False 1793593800000 world0)))) ''prevClose'' =
     VNum (Fin 100) \<and>
   pctChange (Fin (6917247552664371 / 70368744177664)) (Fin 100) =
     Some (Fin (- (119626865102029 / 70368744177664))) \<and>
   optGet (hd (dips (fst (checkWatchlist demo_config ConsoleNotifier False 1793593800000 world0)))) ''change'' =
     VNum (Fin (- (7656119366529843 / 4503599627370496))) \<and>
   optGet (hd (dips (fst (checkWatchlist demo_config ConsoleNotifier False 1793593800000 world0)))) ''change'' \<noteq>
     VNum (Fin (- (119626865102029 / 70368744177664)))"
  by (simp add: demo_scan_dips demo_pctChange optGet_def getProp_def)

lemma utf8_bytes:
  "char_of (0xF0 :: int) = CHR 0xF0 \<and> char_of (0x9F :: int) = CHR 0x9F \<and>
   char_of (0x9A :: int) = CHR 0x9A \<and> char_of (0xA8 :: int) = CHR 0xA8 \<and>
   char_of (0xE2 :: int) = CHR 0xE2 \<and> char_of (0x82 :: int) = CHR 0x82 \<and>
   char_of (0xB9 :: int) = CHR 0xB9 \<and> char_of (10 :: int) = CHR 0x0A"
  by code_simp

text \<open>
  C6 (as the code has it). Every DipRecord of a scan comes from one turn of the loop: the
  turn fetched the quote \<open>q\<close> of an instrument of the watch list, \<open>pctChange\<close> gave the
  value \<open>ch\<close>, a dip, and the turn delivered the alert message and built the record. The
  record stores price and prevClose as that quote has them, and as \<open>change\<close> the number
  \<^verbatim>\<open>Number(change.toFixed(2))\<close>: for \<open>ch\<close> below 10 to the 21 in magnitude, the binary64
  value nearest to \<open>ch\<close> rounded to two decimals, halves away from zero. The alert message
  prints \<open>ch\<close>, the price and the previous close with \<^verbatim>\<open>toFixed(2)\<close> as well, and with the
  console notifier and notification not suppressed that message is on the console when the
  scan ends.
\<close>

theorem stored_change_spec:
  "\<forall>d \<in> set (dips (fst (checkWatchlist cfg n skip now w))).
     \<exists>it q ch tg w0 w1 w2.
       it \<in> set WATCHLIST \<and> grows w w0 \<and>
       fetchQuote cfg (item.symbol it) w0 = (Inr (Some q), w1) \<and>
       pctChange (price q) (prevClose q) = Some ch \<and> js_le ch THRESHOLD_PCT \<and>
       deliver cfg n skip (alert_message it q ch (setZoneKolkata now)) w1 = (tg, w2) \<and>
       grows w2 (snd (checkWatchlist cfg n skip now w)) \<and>
       d = dip_record it q ch (setZoneKolkata now) tg \<and>
       optGet d ''price'' = VNum (price q) \<and>
       optGet d ''prevClose'' = VNum (prevClose q) \<and>
       optGet d ''change'' = VNum (StringToNumber (toFixed ch 2)) \<and>
       (\<forall>x. ch = Fin x \<and> \<bar>x\<bar> < 10 ^ 21 \<longrightarrow>
          optGet d ''change'' = VNum (round64 (- of_int \<lfloor>\<bar>x\<bar> * 100 + 1 / 2\<rfloor> / 100))) \<and>
       alert_message it q ch (setZoneKolkata now) =
         [CHR 0xF0, CHR 0x9F, CHR 0x9A, CHR 0xA8] @ '' Dip Alert'' @ [CHR 0x0A] @
         name it @ '' ('' @ item.symbol it @ '') is '' @ toFixed ch 2 @ ''% vs prev close.'' @
         [CHR 0x0A] @
         ''Price: '' @ [CHR 0xE2, CHR 0x82, CHR 0xB9] @ toFixed (price q) 2 @
         '' | Prev: '' @ [CHR 0xE2, CHR 0x82, CHR 0xB9] @ toFixed (prevClose q) 2 @
         [CHR 0x0A] @ ''('' @ toFormat_dd_LLL_yyyy_HH_mm (setZoneKolkata now) @ '' IST)'' \<and>
       (\<not> skip \<and> n = ConsoleNotifier \<longrightarrow>
          ConsoleLog ''[ALERT]'' (alert_message it q ch (setZoneKolkata now)) \<in>
            set (trace (snd (checkWatchlist cfg n skip now w))))"
proof
  fix d
  let ?t = "setZoneKolkata now"
  let ?wend = "snd (checkWatchlist cfg n skip now w)"
  assume "d \<in> set (dips (fst (checkWatchlist cfg n skip now w)))"
  with checkWatchlist_result obtain it q ch tg w0 w1 w2
    where it: "it \<in> set WATCHLIST" and g0: "grows w w0"
      and f: "fetchQuote cfg (item.symbol it) w0 = (Inr (Some q), w1)"
      and ch: "pctChange (price q) (prevClose q) = Some ch" "js_le ch THRESHOLD_PCT"
      and dl: "deliver cfg n skip (alert_message it q ch ?t) w1 = (tg, w2)"
      and g2: "grows w2 ?wend"
      and d: "d = dip_record it q ch ?t tg"
    unfolding dip_from_def by blast
  have fields: "optGet d ''price'' = VNum (price q)" "optGet d ''prevClose'' = VNum (prevClose q)"
    "optGet d ''change'' = VNum (StringToNumber (toFixed ch 2))"
    by (simp_all add: d dip_record_def optGet_def getProp_def)
  have rounded: "\<forall>x. ch = Fin x \<and> \<bar>x\<bar> < 10 ^ 21 \<longrightarrow>
      optGet d ''change'' = VNum (round64 (- of_int \<lfloor>\<bar>x\<bar> * 100 + 1 / 2\<rfloor> / 100))"
  proof (intro allI impI)
    fix x
    assume x: "ch = Fin x \<and> \<bar>x\<bar> < 10 ^ 21"
    with ch(2) have "x < 0"
      by (simp add: THRESHOLD_PCT_def)
    with x Number_toFixed_2 [of x] fields(3)
    show "optGet d ''change'' = VNum (round64 (- of_int \<lfloor>\<bar>x\<bar> * 100 + 1 / 2\<rfloor> / 100))"
      by simp
  qed
  have msg: "alert_message it q ch ?t =
         [CHR 0xF0, CHR 0x9F, CHR 0x9A, CHR 0xA8] @ '' Dip Alert'' @ [CHR 0x0A] @
         name it @ '' ('' @ item.symbol it @ '') is '' @ toFixed ch 2 @ ''% vs prev close.'' @
         [CHR 0x0A] @
         ''Price: '' @ [CHR 0xE2, CHR 0x82, CHR 0xB9] @ toFixed (price q) 2 @
         '' | Prev: '' @ [CHR 0xE2, CHR 0x82, CHR 0xB9] @ toFixed (prevClose q) 2 @
         [CHR 0x0A] @ ''('' @ toFormat_dd_LLL_yyyy_HH_mm ?t @ '' IST)''"
    using utf8_bytes by (simp add: alert_message_def)
  have logged: "\<not> skip \<and> n = ConsoleNotifier \<longrightarrow>
      ConsoleLog ''[ALERT]'' (alert_message it q ch ?t) \<in> set (trace ?wend)"
  proof
    assume a: "\<not> skip \<and> n = ConsoleNotifier"
    with deliver_console_logs [of skip "alert_message it q ch ?t" cfg w1] dl
    have "ConsoleLog ''[ALERT]'' (alert_message it q ch ?t) \<in> set (trace w2)"
      by simp
    with g2 show "ConsoleLog ''[ALERT]'' (alert_message it q ch ?t) \<in> set (trace ?wend)"
      by (rule grows_mem)
  qed
  show "\<exists>it q ch tg w0 w1 w2.
       it \<in> set WATCHLIST \<and> grows w w0 \<and>
       fetchQuote cfg (item.symbol it) w0 = (Inr (Some q), w1) \<and>
       pctChange (price q) (prevClose q) = Some ch \<and> js_le ch THRESHOLD_PCT \<and>
       deliver cfg n skip (alert_message it q ch ?t) w1 = (tg, w2) \<and>
       grows w2 ?wend \<and>
       d = dip_record it q ch ?t tg \<and>
       optGet d ''price'' = VNum (price q) \<and>
       optGet d ''prevClose'' = VNum (prevClose q) \<and>
       optGet d ''change'' = VNum (StringToNumber (toFixed ch 2)) \<and>
       (\<forall>x. ch = Fin x \<and> \<bar>x\<bar> < 10 ^ 21 \<longrightarrow>
          optGet d ''change'' = VNum (round64 (- of_int \<lfloor>\<bar>x\<bar> * 100 + 1 / 2\<rfloor> / 100))) \<and>
       alert_message it q ch ?t =
         [CHR 0xF0, CHR 0x9F, CHR 0x9A, CHR 0xA8] @ '' Dip Alert'' @ [CHR 0x0A] @
         name it @ '' ('' @ item.symbol it @ '') is '' @ toFixed ch 2 @ ''% vs prev close.'' @
         [CHR 0x0A] @
         ''Price: '' @ [CHR 0xE2, CHR 0x82, CHR 0xB9] @ toFixed (price q) 2 @
         '' | Prev: '' @ [CHR 0xE2, CHR 0x82, CHR 0xB9] @ toFixed (prevClose q) 2 @
         [CHR 0x0A] @ ''('' @ toFormat_dd_LLL_yyyy_HH_mm ?t @ '' IST)'' \<and>
       (\<not> skip \<and> n = ConsoleNotifier \<longrightarrow>
          ConsoleLog ''[ALERT]'' (alert_message it q ch ?t) \<in> set (trace ?wend))"
    apply (rule exI [of _ it], rule exI [of _ q], rule exI [of _ ch], rule exI [of _ tg])
    apply (rule exI [of _ w0], rule exI [of _ w1], rule exI [of _ w2])
    apply (intro conjI)
    using it g0 f ch dl g2 d fields rounded msg logged by blast+
qed

lemma demo_scan_console:
  "ConsoleLog ''[ALERT]''
     ([CHR 0xF0, CHR 0x9F, CHR 0x9A, CHR 0xA8] @ '' Dip Alert'' @ [CHR 0x0A] @
      ''Nifty 50 (NIFTYBEES) (NIFTYBEES) is -1.70% vs prev close.'' @ [CHR 0x0A] @
      ''Price: '' @ [CHR 0xE2, CHR 0x82, CHR 0xB9] @ ''98.30 | Prev: '' @
      [CHR 0xE2, CHR 0x82, CHR 0xB9] @ ''100.00'' @ [CHR 0x0A] @ ''(02 Nov 2026 10:00 IST)'') \<in>
   set (trace (snd (checkWatchlist demo_config ConsoleNotifier False 1793593800000 world0)))"
  by code_simp

text \<open>
  Witness for C6: the demo scan has one DipRecord; it stores -1.7, which is
  \<^verbatim>\<open>Number(ch.toFixed(2))\<close> for the percent change \<open>ch\<close> of the fetched quote, and the console
  holds the alert message, which prints -1.70.
\<close>

theorem stored_change_spec_witness:
  "dips (fst (checkWatchlist demo_config ConsoleNotifier False 1793593800000 world0)) \<noteq> [] \<and>
   (\<exists>it q ch tg.
      hd (dips (fst (checkWatchlist demo_config ConsoleNotifier False 1793593800000 world0))) =
        dip_record it q ch (setZoneKolkata 1793593800000) tg \<and>
      pctChange (price q) (prevClose q) = Some ch \<and> js_le ch THRESHOLD_PCT \<and>
      VNum (Fin (- (7656119366529843 / 4503599627370496))) = VNum (StringToNumber (toFixed ch 2)) \<and>
      ConsoleLog ''[ALERT]'' (alert_message it q ch (setZoneKolkata 1793593800000)) \<in>
        set (trace (snd (checkWatchlist demo_config ConsoleNotifier False 1793593800000 world0)))) \<and>
   ConsoleLog ''[ALERT]''
     ([CHR 0xF0, CHR 0x9F, CHR 0x9A, CHR 0xA8] @ '' Dip Alert'' @ [CHR 0x0A] @
      ''Nifty 50 (NIFTYBEES) (NIFTYBEES) is -1.70% vs prev close.'' @ [CHR 0x0A] @
      ''Price: '' @ [CHR 0xE2, CHR 0x82, CHR 0xB9] @ ''98.30 | Prev: '' @
      [CHR 0xE2, CHR 0x82, CHR 0xB9] @ ''100.00'' @ [CHR 0x0A] @ ''(02 Nov 2026 10:00 IST)'') \<in>
   set (trace (snd (checkWatchlist demo_config ConsoleNotifier False 1793593800000 world0)))"
proof -
  let ?r = "checkWatchlist demo_config ConsoleNotifier False 1793593800000 world0"
  let ?ds = "dips (fst ?r)"
  have ne: "?ds \<noteq> []"
    by (simp add: demo_scan_dips)
  then have "hd ?ds \<in> set ?ds"
    by simp
  with stored_change_spec [of demo_config ConsoleNotifier False 1793593800000 world0]
  obtain it q ch tg where
    "hd ?ds = dip_record it q ch (setZoneKolkata 1793593800000) tg"
    "pctChange (price q) (prevClose q) = Some ch" "js_le ch THRESHOLD_PCT"
    "optGet (hd ?ds) ''change'' = VNum (StringToNumber (toFixed ch 2))"
    "ConsoleLog ''[ALERT]'' (alert_message it q ch (setZoneKolkata 1793593800000)) \<in>
       set (trace (snd ?r))"
    by blast
  moreover have "optGet (hd ?ds) ''change'' = VNum (Fin (- (7656119366529843 / 4503599627370496)))"
    by (simp add: demo_scan_dips optGet_def getProp_def)
  ultimately have "\<exists>it q ch tg.
      hd ?ds = dip_record it q ch (setZoneKolkata 1793593800000) tg \<and>
      pctChange (price q) (prevClose q) = Some ch \<and> js_le ch THRESHOLD_PCT \<and>
      VNum (Fin (- (7656119366529843 / 4503599627370496))) = VNum (StringToNumber (toFixed ch 2)) \<and>
      ConsoleLog ''[ALERT]'' (alert_message it q ch (setZoneKolkata 1793593800000)) \<in>
        set (trace (snd ?r))"
    by metis
  with ne demo_scan_console show ?thesis
    by blast
qed

end
